theory Spec2Isabelle
  imports Complex_Main "HOL-Library.Sublist"
begin

section \<open>Python strings and lists\<close>

text \<open>
  Strings are lists of characters; a character stands for a code point below 256.
  \<open>is_space\<close> is \<open>str.isspace\<close> and \<open>is_linebreak\<close> the line boundaries of
  \<open>str.splitlines\<close> on these code points; \<open>lower_char\<close> is \<open>str.lower\<close>
  (ASCII and Latin-1 capitals move up by 32, which sets the bit of value 32, clear in
  both ranges). \<open>strip\<close> removes whitespace at both ends.
  \<open>splitlines\<close> treats a carriage return followed by a line feed as one boundary
  and yields no empty last line. \<open>contains k s\<close> is \<open>k in s\<close>, \<open>last_n n xs\<close>
  is \<open>xs[-n:]\<close> for positive \<open>n\<close>, \<open>str_join sep xs\<close> is \<open>sep.join(xs)\<close> and
  \<open>str_nat\<close> renders a natural number in decimal.
\<close>

definition is_space :: "char \<Rightarrow> bool" where
  "is_space c = (let n = (of_char c :: nat) in (9 \<le> n \<and> n \<le> 13) \<or> (28 \<le> n \<and> n \<le> 32) \<or> n = 133 \<or> n = 160)"

definition lstrip :: "string \<Rightarrow> string" where
  "lstrip s = dropWhile is_space s"

definition rstrip :: "string \<Rightarrow> string" where
  "rstrip s = rev (dropWhile is_space (rev s))"

definition strip :: "string \<Rightarrow> string" where
  "strip s = lstrip (rstrip s)"

definition is_linebreak :: "char \<Rightarrow> bool" where
  "is_linebreak c = (let n = (of_char c :: nat) in (10 \<le> n \<and> n \<le> 13) \<or> (28 \<le> n \<and> n \<le> 30) \<or> n = 133)"

fun splitlines_from :: "string \<Rightarrow> string \<Rightarrow> string list" where
  "splitlines_from cur [] = (if cur = [] then [] else [rev cur])"
| "splitlines_from cur [c] = (if is_linebreak c then [rev cur] else [rev (c # cur)])"
| "splitlines_from cur (c # d # cs) =
     (if c = CHR 0x0D \<and> d = CHR 0x0A then rev cur # splitlines_from [] cs
      else if is_linebreak c then rev cur # splitlines_from [] (d # cs)
      else splitlines_from (c # cur) (d # cs))"

definition splitlines :: "string \<Rightarrow> string list" where
  "splitlines s = splitlines_from [] s"

definition last_n :: "nat \<Rightarrow> 'a list \<Rightarrow> 'a list" where
  "last_n n xs = drop (length xs - n) xs"

fun str_join :: "string \<Rightarrow> string list \<Rightarrow> string" where
  "str_join sep [] = []"
| "str_join sep [x] = x"
| "str_join sep (x # y # ys) = x @ sep @ str_join sep (y # ys)"

fun str_nat :: "nat \<Rightarrow> string" where
  "str_nat n = (if n < 10 then [''0123456789'' ! n] else str_nat (n div 10) @ [''0123456789'' ! (n mod 10)])"

declare str_nat.simps [simp del]

text \<open>\<open>no_breaks l\<close>: the string \<open>l\<close> holds no line boundary (used in statements only).\<close>

definition no_breaks :: "string \<Rightarrow> bool" where
  "no_breaks l = list_all (\<lambda>c. \<not> is_linebreak c) l"

definition lower_char :: "char \<Rightarrow> char" where
  "lower_char c = (let n = (of_char c :: nat)
     in if (65 \<le> n \<and> n \<le> 90) \<or> (192 \<le> n \<and> n \<le> 222 \<and> n \<noteq> 215)
        then (case c of Char b0 b1 b2 b3 b4 b5 b6 b7 \<Rightarrow> Char b0 b1 b2 b3 b4 True b6 b7)
        else c)"

definition lower :: "string \<Rightarrow> string" where
  "lower s = map lower_char s"

fun contains :: "string \<Rightarrow> string \<Rightarrow> bool" where
  "contains k [] = (k = [])"
| "contains k (c # cs) = (prefix k (c # cs) \<or> contains k cs)"

text \<open>\<open>any(k in s for k in ks)\<close>.\<close>

definition any_in :: "string list \<Rightarrow> string \<Rightarrow> bool" where
  "any_in ks s = list_ex (\<lambda>k. contains k s) ks"

section \<open>Actors, messages and the registry (src/lethe/actor/__init__.py)\<close>

text \<open>
  Python objects are shared by reference: the registry's dictionary, the runner and the
  tool closures all hold the same \<open>Actor\<close> object. The model therefore keeps every
  actor object in a store \<open>heap\<close>, addressed by a reference (a natural number);
  \<open>next_ref\<close> is the first reference not yet handed out. The registry's dictionary
  \<open>_actors\<close> maps an actor id to a reference. One registry is modelled, and every
  actor's \<open>registry\<close> attribute is that registry.

  Values the source draws from its environment are parameters of the model: the
  \<open>uuid4\<close> prefix that becomes an actor id or a message id, and the clock reading
  that becomes \<open>created_at\<close>.
\<close>

datatype ActorState = INITIALIZING | RUNNING | WAITING | TERMINATED

record ActorMessage =
  msg_id :: string
  sender :: string
  recipient :: string
  content :: string
  reply_to :: "string option"
  created_at :: nat

record ActorConfig =
  name :: string
  group :: string
  goals :: string
  model :: string
  tools :: "string list"
  max_turns :: int
  max_messages :: int

record Actor =
  actor_id :: string
  config :: ActorConfig
  spawned_by :: string
  is_principal :: bool
  state :: ActorState
  inbox :: "ActorMessage list"
  messages :: "ActorMessage list"
  result :: "string option"
  turns :: int

text \<open>
  \<open>tasks\<close> holds the coroutines \<open>parent.send(msg)\<close> that
  \<open>_on_actor_terminated\<close> hands to a running event loop with
  \<open>loop.create_task\<close>: the receiving actor's reference and the message. They have
  been created but have not run yet.
\<close>

record world =
  heap :: "nat \<Rightarrow> Actor"
  next_ref :: nat
  actors :: "string \<rightharpoonup> nat"
  principal_id :: "string option"
  tasks :: "(nat \<times> ActorMessage) list"

datatype py_error = ValueError string

text \<open>\<open>Actor.__init__\<close>: a new actor starts in \<open>INITIALIZING\<close> with empty queues.\<close>

definition Actor_init :: "ActorConfig \<Rightarrow> string option \<Rightarrow> bool \<Rightarrow> string \<Rightarrow> Actor" where
  "Actor_init cfg parent as_principal new_id =
     \<lparr>actor_id = new_id, config = cfg,
      spawned_by = (case parent of None \<Rightarrow> [] | Some s \<Rightarrow> s),
      is_principal = as_principal, state = INITIALIZING,
      inbox = [], messages = [], result = None, turns = 0\<rparr>"

text \<open>
  \<open>ActorRegistry.spawn\<close>. The source has no raise and no check of
  \<open>_principal_id\<close>: it stores the actor under its id, overwrites
  \<open>_principal_id\<close> when \<open>is_principal\<close> holds, and sets the state to
  \<open>RUNNING\<close>. The result is the new actor's reference and the world after the call.
\<close>

definition spawn :: "world \<Rightarrow> ActorConfig \<Rightarrow> string option \<Rightarrow> bool \<Rightarrow> string \<Rightarrow> nat \<times> world" where
  "spawn w cfg parent as_principal new_id =
     (let r = next_ref w;
          actor = Actor_init cfg parent as_principal new_id;
          w1 = w\<lparr>heap := (heap w)(r := actor), next_ref := Suc r\<rparr>;
          w2 = w1\<lparr>actors := (actors w1)(new_id \<mapsto> r)\<rparr>;
          w3 = (if as_principal then w2\<lparr>principal_id := Some new_id\<rparr> else w2);
          w4 = w3\<lparr>heap := (heap w3)(r := (heap w3 r)\<lparr>state := RUNNING\<rparr>)\<rparr>
      in (r, w4))"

definition get :: "world \<Rightarrow> string \<Rightarrow> nat option" where
  "get w aid = actors w aid"

text \<open>\<open>get_principal\<close>: \<open>if self._principal_id\<close> is false for \<open>None\<close> and for the empty string.\<close>

definition get_principal :: "world \<Rightarrow> nat option" where
  "get_principal w =
     (case principal_id w of
        None \<Rightarrow> None
      | Some pid \<Rightarrow> if pid = [] then None else actors w pid)"

text \<open>\<open>Actor.send\<close>: the receiving actor appends to its history and to its inbox.\<close>

definition send :: "world \<Rightarrow> nat \<Rightarrow> ActorMessage \<Rightarrow> world" where
  "send w self msg =
     (let w1 = w\<lparr>heap := (heap w)(self := (heap w self)\<lparr>messages := messages (heap w self) @ [msg]\<rparr>)\<rparr>
      in w1\<lparr>heap := (heap w1)(self := (heap w1 self)\<lparr>inbox := inbox (heap w1 self) @ [msg]\<rparr>)\<rparr>)"

text \<open>
  \<open>Actor.send_to\<close>: the message is built first, then the recipient is looked up; a
  missing recipient raises \<open>ValueError\<close> before anything is stored. Otherwise the
  recipient's \<open>send\<close> runs and then the sender appends to its own history. The result
  pairs the outcome with the world after the call.
\<close>

definition new_message :: "world \<Rightarrow> nat \<Rightarrow> string \<Rightarrow> string \<Rightarrow> string option \<Rightarrow> string \<Rightarrow> nat \<Rightarrow> ActorMessage" where
  "new_message w self recipient_id text rt mid now =
     \<lparr>msg_id = mid, sender = actor_id (heap w self), recipient = recipient_id,
      content = text, reply_to = rt, created_at = now\<rparr>"

definition send_to ::
  "world \<Rightarrow> nat \<Rightarrow> string \<Rightarrow> string \<Rightarrow> string option \<Rightarrow> string \<Rightarrow> nat \<Rightarrow> (py_error + ActorMessage) \<times> world" where
  "send_to w self recipient_id text rt mid now =
     (let msg = new_message w self recipient_id text rt mid now
      in case get w recipient_id of
           None \<Rightarrow> (Inl (ValueError (''Actor '' @ recipient_id @ '' not found'')), w)
         | Some r \<Rightarrow>
             (let w1 = send w r msg;
                  w2 = w1\<lparr>heap := (heap w1)(self := (heap w1 self)\<lparr>messages := messages (heap w1 self) @ [msg]\<rparr>)\<rparr>
              in (Inr msg, w2)))"

text \<open>
  \<open>ActorRegistry._on_actor_terminated\<close>. \<open>loop_running\<close> says whether
  \<open>asyncio.get_running_loop()\<close> succeeds: then the delivery is handed to the event
  loop as a task, otherwise the message is put into the parent's history and inbox
  directly. \<open>actor._result or 'no result'\<close> reads the result of the object the registry
  holds under the id.
\<close>

definition terminated_notice :: "Actor \<Rightarrow> string \<Rightarrow> string \<Rightarrow> nat \<Rightarrow> ActorMessage" where
  "terminated_notice actor aid mid now =
     \<lparr>msg_id = mid, sender = aid, recipient = spawned_by actor,
      content = ''[TERMINATED] '' @ name (config actor) @ '' finished: '' @
        (case result actor of None \<Rightarrow> ''no result'' | Some r \<Rightarrow> if r = [] then ''no result'' else r),
      reply_to = None, created_at = now\<rparr>"

definition on_actor_terminated :: "bool \<Rightarrow> world \<Rightarrow> string \<Rightarrow> string \<Rightarrow> nat \<Rightarrow> world" where
  "on_actor_terminated loop_running w aid mid now =
     (case actors w aid of
        None \<Rightarrow> w
      | Some a \<Rightarrow>
          (let actor = heap w a;
               parent = (if spawned_by actor \<noteq> [] then actors w (spawned_by actor) else None)
           in case parent of
                None \<Rightarrow> w
              | Some p \<Rightarrow>
                  if state (heap w p) = RUNNING then
                    (let msg = terminated_notice actor aid mid now
                     in if loop_running then w\<lparr>tasks := tasks w @ [(p, msg)]\<rparr>
                        else (let w1 = w\<lparr>heap := (heap w)(p := (heap w p)\<lparr>messages := messages (heap w p) @ [msg]\<rparr>)\<rparr>
                              in w1\<lparr>heap := (heap w1)(p := (heap w1 p)\<lparr>inbox := inbox (heap w1 p) @ [msg]\<rparr>)\<rparr>))
                  else w))"

text \<open>
  \<open>Actor.terminate\<close>. \<open>result or f"Actor {name} terminated"\<close> takes the default
  for \<open>None\<close> and for the empty string. The source assigns the result and the state
  whatever the current state is, and then always notifies the registry.
\<close>

definition terminate_result :: "Actor \<Rightarrow> string option \<Rightarrow> string" where
  "terminate_result actor r =
     (case r of
        None \<Rightarrow> ''Actor '' @ name (config actor) @ '' terminated''
      | Some s \<Rightarrow> if s = [] then ''Actor '' @ name (config actor) @ '' terminated'' else s)"

definition terminate :: "bool \<Rightarrow> world \<Rightarrow> nat \<Rightarrow> string option \<Rightarrow> string \<Rightarrow> nat \<Rightarrow> world" where
  "terminate loop_running w self r mid now =
     (let w1 = w\<lparr>heap := (heap w)(self := (heap w self)\<lparr>result := Some (terminate_result (heap w self) r)\<rparr>)\<rparr>;
          w2 = w1\<lparr>heap := (heap w1)(self := (heap w1 self)\<lparr>state := TERMINATED\<rparr>)\<rparr>
      in on_actor_terminated loop_running w2 (actor_id (heap w2 self)) mid now)"

section \<open>Actor tools (src/lethe/actor/tools.py)\<close>

text \<open>
  The \<open>send_message\<close> tool closes over the calling actor. It returns an error string,
  without calling \<open>send_to\<close>, when the target is unknown or terminated. An exception
  of \<open>send_to\<close> would propagate.
\<close>

definition send_message ::
  "world \<Rightarrow> nat \<Rightarrow> string \<Rightarrow> string \<Rightarrow> string \<Rightarrow> string \<Rightarrow> nat \<Rightarrow> (py_error + string) \<times> world" where
  "send_message w actor aid text rt mid now =
     (case get w aid of
        None \<Rightarrow> (Inr (''Error: actor '' @ aid @ '' not found. Use discover_actors() to find available actors.''), w)
      | Some t \<Rightarrow>
          if state (heap w t) = TERMINATED
          then (Inr (''Error: actor '' @ aid @ '' ('' @ name (config (heap w t)) @ '') is terminated.''), w)
          else (case send_to w actor aid text (if rt = [] then None else Some rt) mid now of
                  (Inl e, w') \<Rightarrow> (Inl e, w')
                | (Inr msg, w') \<Rightarrow>
                    (Inr (''Message sent (id='' @ msg_id msg @ '') to '' @ name (config (heap w' t))
                          @ '' ('' @ aid @ '')''), w')))"

text \<open>The \<open>terminate\<close> tool: \<open>actor.terminate(result)\<close>, then a fixed confirmation.\<close>

definition terminate_tool :: "bool \<Rightarrow> world \<Rightarrow> nat \<Rightarrow> string \<Rightarrow> string \<Rightarrow> nat \<Rightarrow> string \<times> world" where
  "terminate_tool loop_running w actor r mid now =
     (''Terminated. Result sent to parent.'', terminate loop_running w actor (Some r) mid now)"

section \<open>Conversation state (src/lethe/conversation/__init__.py)\<close>

text \<open>
  Metadata dictionaries are maps from keys to values of any type \<open>'v\<close>. The event
  \<open>interrupt_event\<close> is its flag. \<open>combine_step\<close> is the body of the loop over the
  pending messages: append the content, \<open>update\<close> the merged dictionary.
  \<open>pop(0)\<close> on the one-element list leaves the list empty.
\<close>

record 'v PendingMessage =
  pm_content :: string
  pm_metadata :: "string \<rightharpoonup> 'v"
  pm_created_at :: nat

record 'v ConversationState =
  chat_id :: int
  user_id :: int
  pending_messages :: "'v PendingMessage list"
  is_processing :: bool
  interrupt_event :: bool

definition additional_separator :: string where
  "additional_separator = [CHR 0x0A, CHR 0x0A] @ ''---'' @ [CHR 0x0A] @ ''[Additional message while processing:]'' @ [CHR 0x0A]"

definition add_message :: "'v ConversationState \<Rightarrow> string \<Rightarrow> (string \<rightharpoonup> 'v) option \<Rightarrow> nat \<Rightarrow> bool \<times> 'v ConversationState" where
  "add_message st text md now =
     (let st1 = st\<lparr>pending_messages := pending_messages st @
                  [\<lparr>pm_content = text, pm_metadata = (case md of None \<Rightarrow> Map.empty | Some m \<Rightarrow> m),
                    pm_created_at = now\<rparr>]\<rparr>
      in if is_processing st1 then (True, st1\<lparr>interrupt_event := True\<rparr>) else (False, st1))"

definition combine_step :: "string list \<times> (string \<rightharpoonup> 'v) \<Rightarrow> 'v PendingMessage \<Rightarrow> string list \<times> (string \<rightharpoonup> 'v)" where
  "combine_step acc msg = (fst acc @ [pm_content msg], snd acc ++ pm_metadata msg)"

definition combine_all :: "'v PendingMessage list \<Rightarrow> string list \<times> (string \<rightharpoonup> 'v)" where
  "combine_all ms = foldl combine_step ([], Map.empty) ms"

definition get_combined_message :: "'v ConversationState \<Rightarrow> (string \<times> (string \<rightharpoonup> 'v)) \<times> 'v ConversationState" where
  "get_combined_message st =
     (if pending_messages st = [] then (([], Map.empty), st)
      else if length (pending_messages st) = 1 then
        (let msg = hd (pending_messages st)
         in ((pm_content msg, pm_metadata msg), st\<lparr>pending_messages := tl (pending_messages st)\<rparr>))
      else
        (let acc = combine_all (pending_messages st);
             st1 = st\<lparr>pending_messages := []\<rparr>
         in ((str_join additional_separator (fst acc), snd acc), st1)))"

definition get_pending_count :: "(int \<rightharpoonup> 'v ConversationState) \<Rightarrow> int \<Rightarrow> nat" where
  "get_pending_count states c = (case states c of None \<Rightarrow> 0 | Some st \<Rightarrow> length (pending_messages st))"

section \<open>Response judgment (src/lethe/hippocampus/__init__.py)\<close>

text \<open>
  \<open>judge_response\<close> asks a model and parses its answer. The parts outside the
  repository are parameters: \<open>loads\<close> is \<open>json.loads\<close> (\<open>None\<close> for a
  \<open>JSONDecodeError\<close>), \<open>agent_ok\<close> says whether \<open>get_or_create_agent\<close>
  returns, and the reply is what the call to the model yields: it raises, or it gives
  the text of the first assistant message (\<open>None\<close> when there is none).
  \<open>search_braces\<close> is \<open>re.search\<close> with the pattern of an opening brace, any
  characters other than braces, and a closing brace. Every exception inside the
  \<open>try\<close> block ends in the default result; \<open>.get\<close> on a parsed value that is
  not an object is such an exception.
\<close>

datatype json = JNull | JBool bool | JInt int | JString string | JArray "json list" | JObject "(string \<times> json) list"

record judge_result =
  send_to_user :: json
  continue_task :: json
  reason :: json

datatype judge_reply = CallRaised | Reply "string option"

definition default_result :: judge_result where
  "default_result = \<lparr>send_to_user = JBool True, continue_task = JBool False, reason = JString ''default''\<rparr>"

definition dict_get :: "(string \<times> json) list \<Rightarrow> string \<Rightarrow> json \<Rightarrow> json" where
  "dict_get kvs k d = (case map_of kvs k of None \<Rightarrow> d | Some v \<Rightarrow> v)"

fun brace_body :: "string \<Rightarrow> string option" where
  "brace_body [] = None"
| "brace_body (c # cs) =
     (if c = CHR ''}'' then Some []
      else if c = CHR ''{'' then None
      else map_option ((#) c) (brace_body cs))"

fun search_braces :: "string \<Rightarrow> string option" where
  "search_braces [] = None"
| "search_braces (c # cs) =
     (if c = CHR ''{'' then
        (case brace_body cs of
           Some body \<Rightarrow> Some (CHR ''{'' # body @ [CHR ''}''])
         | None \<Rightarrow> search_braces cs)
      else search_braces cs)"

definition judgment_of :: "json \<Rightarrow> judge_result" where
  "judgment_of v =
     (case v of
        JObject kvs \<Rightarrow>
          \<lparr>send_to_user = dict_get kvs ''send_to_user'' (JBool True),
           continue_task = dict_get kvs ''continue_task'' (JBool False),
           reason = dict_get kvs ''reason'' (JString [])\<rparr>
      | _ \<Rightarrow> default_result)"

definition judge_response ::
  "(string \<Rightarrow> json option) \<Rightarrow> bool \<Rightarrow> bool \<Rightarrow> string \<Rightarrow> string \<Rightarrow> int \<Rightarrow> bool \<Rightarrow> judge_reply \<Rightarrow> judge_result" where
  "judge_response loads enabled agent_ok original_request agent_response iteration is_continuation reply =
     (if \<not> enabled then default_result
      else if \<not> agent_ok then default_result
      else if agent_response = [] \<and> iteration \<le> 2 then
        \<lparr>send_to_user = JBool False, continue_task = JBool True, reason = JString ''no response early iteration''\<rparr>
      else if agent_response = [] then
        \<lparr>send_to_user = JBool False, continue_task = JBool False, reason = JString ''no response late iteration''\<rparr>
      else
        (case reply of
           CallRaised \<Rightarrow> default_result
         | Reply None \<Rightarrow> default_result
         | Reply (Some result_text) \<Rightarrow>
             if result_text = [] then default_result
             else (case loads result_text of
                     Some v \<Rightarrow> judgment_of v
                   | None \<Rightarrow>
                       (case search_braces result_text of
                          None \<Rightarrow> default_result
                        | Some m \<Rightarrow> (case loads m of None \<Rightarrow> default_result | Some v \<Rightarrow> judgment_of v)))))"

section \<open>Seed tags and tag-log compaction (src/lethe/actor/amygdala.py)\<close>

text \<open>
  \<open>_heuristic_seed_tags\<close>. The source computes with binary floating point and
  rounds what it emits to two decimals; every constant is a multiple of 0.05 and at
  most five of them are added, so the emitted numbers are the exact decimal sums, and
  the comparison with the threshold 0.75 agrees as well. The model computes with
  rationals. It returns the list of seed records that the source hands to
  \<open>json.dumps\<close> (the empty list where the source returns the text \<open>(none)\<close>).
\<close>

record seed =
  signal :: string
  valence :: rat
  arousal :: rat
  tags :: "string list"
  high_arousal :: bool

definition HIGH_AROUSAL_THRESHOLD :: rat where "HIGH_AROUSAL_THRESHOLD = 75 / 100"

definition has_positive :: "string \<Rightarrow> bool" where
  "has_positive l = any_in [''great'', ''love'', ''thanks'', ''good'', ''nice'', ''awesome''] l"
definition has_negative :: "string \<Rightarrow> bool" where
  "has_negative l = any_in [''angry'', ''frustrated'', ''annoyed'', ''hate'', ''bad'', ''broken'', ''error'', ''failed''] l"
definition has_contrast :: "string \<Rightarrow> bool" where
  "has_contrast l = any_in ['' but '', '' though '', '' however '', '' keeps '', '' still ''] l"
definition has_sarcasm :: "string \<Rightarrow> bool" where
  "has_sarcasm l = (contains ''yeah right'' l \<or> contains ''sure...'' l \<or> (contains ''great job'' l \<and> has_negative l))"
definition has_urgency :: "string \<Rightarrow> bool" where
  "has_urgency l = any_in [''urgent'', ''asap'', ''now'', ''immediately'', ''broken'', ''error'', ''failed''] l"
definition has_risk :: "string \<Rightarrow> bool" where
  "has_risk l = any_in [''deadline'', ''late'', ''overdue'', ''risk'', ''lost''] l"

definition seed_of_line :: "string \<Rightarrow> seed" where
  "seed_of_line line =
     (let l = lower line;
          arousal0 = 2 / 10; valence0 = 0; tags0 = [];
          (arousal1, tags1) = (if has_urgency l then (arousal0 + 4 / 10, tags0 @ [''urgency'']) else (arousal0, tags0));
          (arousal2, valence2, tags2) =
             (if has_negative l then (arousal1 + 25 / 100, valence0 - 5 / 10, tags1 @ [''negative_affect''])
              else (arousal1, valence0, tags1));
          (valence3, tags3) = (if has_positive l then (valence2 + 5 / 10, tags2 @ [''positive_affect'']) else (valence2, tags2));
          (valence4, arousal4, tags4) =
             (if has_positive l \<and> (has_negative l \<or> has_contrast l \<or> has_sarcasm l)
              then (valence3 - 6 / 10, arousal2 + 1 / 10, tags3 @ [''mixed_or_ironic''])
              else (valence3, arousal2, tags3));
          (arousal5, tags5) = (if has_risk l then (arousal4 + 2 / 10, tags4 @ [''risk'']) else (arousal4, tags4));
          arousal6 = max 0 (min 1 arousal5);
          valence6 = max (- 1) (min 1 valence4)
      in \<lparr>signal = take 180 line, valence = valence6, arousal = arousal6,
          tags = (if tags5 = [] then [''neutral''] else tags5),
          high_arousal = (arousal6 \<ge> HIGH_AROUSAL_THRESHOLD)\<rparr>)"

definition heuristic_seed_tags :: "string \<Rightarrow> seed list" where
  "heuristic_seed_tags recent_signals =
     (let lines = map strip (filter (\<lambda>l. strip l \<noteq> []) (splitlines recent_signals))
      in map seed_of_line (last_n 8 lines))"

text \<open>
  \<open>_compact_tag_log\<close>. The tag log file is \<open>None\<close> when it does not exist; reading
  and writing it are taken to succeed. \<open>now\<close> is the formatted clock reading.
  \<open>max(0, len(lines) - len(keep))\<close> is the truncated difference of the two lengths.
\<close>

record amygdala_status =
  status_state :: string
  rounds_total :: int
  last_started_at :: string
  last_completed_at :: string
  last_turns :: int
  last_alert :: string
  last_result :: string
  last_error :: string
  tags_pruned_total :: int

definition TAG_LOG_MAX_CHARS :: nat where "TAG_LOG_MAX_CHARS = 24000"
definition TAG_LOG_KEEP_LINES :: nat where "TAG_LOG_KEEP_LINES = 140"

definition compaction_header :: "string \<Rightarrow> nat \<Rightarrow> string list" where
  "compaction_header now pruned =
     [''# Emotional tags (compacted at '' @ now @ '')'',
      ''- pruned_lines: '' @ str_nat pruned,
      ''- note: keeping only recent rolling window'',
      []]"

definition compact_tag_log :: "string \<Rightarrow> string option \<Rightarrow> amygdala_status \<Rightarrow> string option \<times> amygdala_status" where
  "compact_tag_log now file st =
     (case file of
        None \<Rightarrow> (file, st)
      | Some data \<Rightarrow>
          if length data \<le> TAG_LOG_MAX_CHARS then (file, st)
          else
            (let lines = splitlines data;
                 keep = (if length lines > TAG_LOG_KEEP_LINES then last_n TAG_LOG_KEEP_LINES lines else lines);
                 pruned = length lines - length keep;
                 header = compaction_header now pruned
             in (Some (strip (str_join [CHR 0x0A] (header @ keep)) @ [CHR 0x0A]),
                 st\<lparr>tags_pruned_total := tags_pruned_total st + int pruned\<rparr>)))"

text \<open>
  For the statements about compaction: a header line is a line that starts like the
  first line of the compaction header, \<open>header_lines\<close> are the header lines of a
  log, and \<open>header_block\<close> is the text of the first three lines of the header,
  joined by line feeds.
\<close>

definition is_header_line :: "string \<Rightarrow> bool" where
  "is_header_line l = prefix ''# Emotional tags (compacted at '' l"

definition header_lines :: "string option \<Rightarrow> string list" where
  "header_lines file = (case file of None \<Rightarrow> [] | Some c \<Rightarrow> filter is_header_line (splitlines c))"

definition header_block :: "string \<Rightarrow> nat \<Rightarrow> string" where
  "header_block now n = ''# Emotional tags (compacted at '' @ now @ '')'' @ [CHR 0x0A]
     @ ''- pruned_lines: '' @ str_nat n @ [CHR 0x0A] @ ''- note: keeping only recent rolling window''"

section \<open>What a model call does\<close>

text \<open>
  The LLM client is outside the repository. While the runner awaits \<open>llm.chat\<close>, the
  client may call the tools bound to the actor, other tasks may deliver messages to
  the actor, and in the end the call returns a text or raises. One call is therefore
  given by the sequence of these events and its outcome (\<open>Inl\<close> the error text,
  \<open>Inr\<close> the response); the behaviour of every turn is arbitrary, so any dependence
  of the model on the prompt text is covered and the prompt text is not modelled.
  \<open>Deliver\<close> is another task's \<open>send\<close> on this actor. Other effects of other
  tasks are outside the model. Tool calls run inside the event loop.
\<close>

record spawn_args =
  sa_name :: string
  sa_goals :: string
  sa_group :: string
  sa_tools :: string
  sa_model :: string
  sa_max_turns :: int

datatype tool_event =
    SendMessage string string string string nat
  | WaitForResponse
  | DiscoverActors string
  | Terminate string string nat
  | SpawnSubagent spawn_args string
  | ExternalTool
  | Deliver ActorMessage

record llm_turn =
  events :: "tool_event list"
  outcome :: "string + string"
  wait_deliveries :: "ActorMessage list"

text \<open>\<open>str.split(",")\<close>.\<close>

fun split_from :: "char \<Rightarrow> string \<Rightarrow> string \<Rightarrow> string list" where
  "split_from c cur [] = [rev cur]"
| "split_from c cur (x # xs) = (if x = c then rev cur # split_from c [] xs else split_from c (x # cur) xs)"

text \<open>
  The \<open>spawn_subagent\<close> tool, offered only to the principal and to actors whose
  tool list contains \<open>spawn\<close>.
\<close>

definition spawn_subagent :: "world \<Rightarrow> nat \<Rightarrow> spawn_args \<Rightarrow> string \<Rightarrow> nat \<times> world" where
  "spawn_subagent w actor args new_id =
     (let tool_list = (if sa_tools args = [] then []
                       else map strip (filter (\<lambda>t. strip t \<noteq> []) (split_from (CHR '','') [] (sa_tools args))));
          cfg = \<lparr>name = sa_name args,
                 group = (if sa_group args = [] then group (config (heap w actor)) else sa_group args),
                 goals = sa_goals args, model = sa_model args, tools = tool_list,
                 max_turns = sa_max_turns args, max_messages = 50\<rparr>
      in spawn w cfg (Some (actor_id (heap w actor))) False new_id)"

text \<open>
  \<open>wait_for_reply\<close> takes the head of the inbox when there is one and times out
  otherwise; \<open>pop_inbox\<close> is its effect on the actor.
\<close>

definition pop_inbox :: "world \<Rightarrow> nat \<Rightarrow> world" where
  "pop_inbox w self = w\<lparr>heap := (heap w)(self := (heap w self)\<lparr>inbox := tl (inbox (heap w self))\<rparr>)\<rparr>"

fun run_event :: "nat \<Rightarrow> world \<Rightarrow> tool_event \<Rightarrow> world" where
  "run_event self w (SendMessage aid text rt mid now) = snd (send_message w self aid text rt mid now)"
| "run_event self w WaitForResponse = pop_inbox w self"
| "run_event self w (DiscoverActors g) = w"
| "run_event self w (Terminate r mid now) = snd (terminate_tool True w self r mid now)"
| "run_event self w (SpawnSubagent args new_id) =
     (if is_principal (heap w self) \<or> ''spawn'' \<in> set (tools (config (heap w self)))
      then snd (spawn_subagent w self args new_id) else w)"
| "run_event self w ExternalTool = w"
| "run_event self w (Deliver m) = send w self m"

definition run_events :: "nat \<Rightarrow> world \<Rightarrow> tool_event list \<Rightarrow> world" where
  "run_events self w evs = foldl (run_event self) w evs"

section \<open>The runner (src/lethe/actor/runner.py)\<close>

text \<open>
  \<open>setup_error\<close> is the exception, if any, raised before the loop (by the LLM
  factory or by \<open>add_tool\<close>). \<open>stamp_id\<close> and \<open>stamp_time\<close> are the fresh id and
  the clock reading for the notice of the runner's own \<open>terminate\<close> call, of which
  there is at most one in a run. \<open>unbound_error\<close> is the interpreter's text for
  reading the local \<open>response\<close> before any assignment.
\<close>

record runner_env =
  setup_error :: "string option"
  llm :: "nat \<Rightarrow> llm_turn"
  stamp_id :: string
  stamp_time :: nat
  unbound_error :: string

definition set_turns :: "world \<Rightarrow> nat \<Rightarrow> int \<Rightarrow> world" where
  "set_turns w self n = w\<lparr>heap := (heap w)(self := (heap w self)\<lparr>turns := n\<rparr>)\<rparr>"

text \<open>Draining the inbox with \<open>get_nowait\<close> until it is empty.\<close>

definition drain_inbox :: "world \<Rightarrow> nat \<Rightarrow> ActorMessage list \<times> world" where
  "drain_inbox w self =
     (inbox (heap w self), w\<lparr>heap := (heap w)(self := (heap w self)\<lparr>inbox := []\<rparr>)\<rparr>)"

definition is_ack :: "string \<Rightarrow> bool" where
  "is_ack response = (response \<noteq> [] \<and> lower (strip response) \<in> set [''ok'', ''done'', ''understood''])"

text \<open>
  The two-second wait for one inbox message: what arrives meanwhile is delivered, and
  one message is taken from the inbox if there is any.
\<close>

definition wait_briefly :: "world \<Rightarrow> nat \<Rightarrow> ActorMessage list \<Rightarrow> world" where
  "wait_briefly w self ds = pop_inbox (foldl (\<lambda>v m. send v self m) w ds) self"

text \<open>
  The loop \<open>for turn in range(max_turns)\<close>: the first number counts the iterations
  left, \<open>turn\<close> is the loop variable, and the last argument is the local
  \<open>response\<close> (\<open>None\<close> while unassigned). Every \<open>break\<close> returns at once.
\<close>

fun run_loop :: "runner_env \<Rightarrow> nat \<Rightarrow> nat \<Rightarrow> nat \<Rightarrow> world \<Rightarrow> string option \<Rightarrow> world \<times> string option" where
  "run_loop env self 0 turn w response = (w, response)"
| "run_loop env self (Suc k) turn w response =
     (let w1 = set_turns w self (int turn + 1)
      in if state (heap w1 self) = TERMINATED then (w1, response)
         else
           (let w2 = snd (drain_inbox w1 self);
                t = llm env turn;
                w3 = run_events self w2 (events t)
            in case outcome t of
                 Inl e \<Rightarrow> (terminate True w3 self (Some (''Error: '' @ e)) (stamp_id env) (stamp_time env), response)
               | Inr r \<Rightarrow>
                   if state (heap w3 self) = TERMINATED then (w3, Some r)
                   else if is_ack r then run_loop env self k (Suc turn) w3 (Some r)
                   else run_loop env self k (Suc turn) (wait_briefly w3 self (wait_deliveries t)) (Some r)))"

definition max_turns_result :: "string \<Rightarrow> string" where
  "max_turns_result response =
     ''Max turns reached. Last response: '' @ (if response = [] then ''none'' else take 200 response)"

text \<open>
  \<open>ActorRunner.run\<close>: every exception ends in \<open>terminate("Runner error: ...")\<close>;
  the result is \<open>actor._result or "No result"\<close> and the world after the run.
\<close>

definition run :: "runner_env \<Rightarrow> world \<Rightarrow> nat \<Rightarrow> string \<times> world" where
  "run env w self =
     (let w' =
        (case setup_error env of
           Some e \<Rightarrow> terminate True w self (Some (''Runner error: '' @ e)) (stamp_id env) (stamp_time env)
         | None \<Rightarrow>
             (let lp = run_loop env self (nat (max_turns (config (heap w self)))) 0 w None
              in if state (heap (fst lp) self) \<noteq> TERMINATED then
                   (case snd lp of
                      None \<Rightarrow> terminate True (fst lp) self (Some (''Runner error: '' @ unbound_error env))
                                (stamp_id env) (stamp_time env)
                    | Some r \<Rightarrow> terminate True (fst lp) self (Some (max_turns_result r))
                                (stamp_id env) (stamp_time env))
                 else fst lp))
      in (case result (heap w' self) of None \<Rightarrow> ''No result'' | Some r \<Rightarrow> if r = [] then ''No result'' else r, w'))"

section \<open>The heartbeat round (src/lethe/actor/amygdala.py)\<close>

text \<open>
  \<open>_extract_user_notification\<close>: among the messages addressed to the cortex and not
  sent by it, those whose stripped content starts with \<open>[USER_NOTIFY]\<close> give the
  stripped rest, those starting with \<open>[AMYGDALA_ALERT]\<close> give the whole text; the
  last candidate is returned.
\<close>

definition notification_candidates :: "string \<Rightarrow> ActorMessage \<Rightarrow> string list" where
  "notification_candidates cortex_id m =
     (if recipient m \<noteq> cortex_id \<or> sender m = cortex_id then []
      else (let text = strip (content m)
            in if prefix ''[USER_NOTIFY]'' text then [strip (drop (length ''[USER_NOTIFY]'') text)]
               else if prefix ''[AMYGDALA_ALERT]'' text then [text]
               else []))"

definition extract_user_notification :: "ActorMessage list \<Rightarrow> string \<Rightarrow> string option" where
  "extract_user_notification ms cortex_id =
     (let candidates = concat (map (notification_candidates cortex_id) ms)
      in if candidates = [] then None else Some (last candidates))"

text \<open>\<open>_recent_signals\<close>: no provider, a provider that raises, or the provider's text.\<close>

definition recent_signals :: "(string + string) option \<Rightarrow> string" where
  "recent_signals provider =
     (case provider of
        None \<Rightarrow> ''(no signal provider)''
      | Some (Inl e) \<Rightarrow> ''(failed to get recent signals: '' @ e @ '')''
      | Some (Inr text) \<Rightarrow> if strip text = [] then ''(no recent user signals)'' else strip text)"

definition FLASHBACK_LOOKBACK :: nat where "FLASHBACK_LOOKBACK = 12"

text \<open>
  \<open>_update_active_patterns\<close> reads back the seeds it serialised: the first tag of
  every high-arousal seed goes into a ring of 12.
\<close>

definition update_active_patterns :: "string list \<Rightarrow> seed list \<Rightarrow> string list" where
  "update_active_patterns ps seeds =
     foldl (\<lambda>acc sd. if high_arousal sd \<and> tags sd \<noteq> []
                       then last_n FLASHBACK_LOOKBACK (acc @ [hd (tags sd)]) else acc) ps seeds"

text \<open>\<open>cleanup_terminated\<close> removes the terminated actors from the registry's dictionary.\<close>

definition cleanup_terminated :: "world \<Rightarrow> world" where
  "cleanup_terminated w =
     w\<lparr>actors := (\<lambda>aid. case actors w aid of
                            None \<Rightarrow> None
                          | Some r \<Rightarrow> if state (heap w r) = TERMINATED then None else Some r)\<rparr>"

definition str_int :: "int \<Rightarrow> string" where
  "str_int i = (if i < 0 then ''-'' @ str_nat (nat (- i)) else str_nat (nat i))"

record round_record =
  rr_started_at :: string
  rr_completed_at :: string
  rr_turns :: int
  rr_alert :: bool
  rr_error :: string
  rr_result :: string

text \<open>
  The state of the \<open>Amygdala\<close> object and the tag log file. The history ring keeps
  the last 40 rounds (its \<open>duration_seconds\<close> entry, a clock difference, is left
  out). The state file is read only for the prompt and is not modelled.
\<close>

record amygdala =
  status :: amygdala_status
  tag_log :: "string option"
  round_history :: "round_record list"
  active_patterns :: "string list"
  current_actor :: "nat option"

text \<open>
  What one round takes from outside: clock readings, the signal provider's outcome,
  the fresh actor id, whether creating the LLM client or registering the tools raises
  (\<open>llm_setup_error\<close>; that exception leaves \<open>run_round\<close>), what the model does in
  each turn, and what the round's file tools leave in the tag log (\<open>None\<close> when they
  do not touch it).
\<close>

record round_env =
  started_at :: string
  completed_at :: string
  compact_clock_start :: string
  compact_clock_end :: string
  signals_provider :: "(string + string) option"
  fresh_actor_id :: string
  llm_setup_error :: "string option"
  round_llm :: "nat \<Rightarrow> llm_turn"
  tag_log_written :: "string option option"
  round_stamp_id :: string
  round_stamp_time :: nat

definition amygdala_config :: ActorConfig where
  "amygdala_config = \<lparr>name = ''amygdala'', group = ''main'',
     goals = ''Tag emotional salience, track arousal patterns, detect flashbacks, and notify cortex only when escalation is warranted.'',
     model = [],
     tools = [''read_file'', ''write_file'', ''edit_file'', ''list_directory'', ''grep_search'',
              ''conversation_search'', ''memory_read''],
     max_turns = 6, max_messages = 50\<rparr>"

text \<open>
  \<open>self.registry.events.query(...)\<close> (line 205). \<open>ActorRegistry.__init__\<close> sets
  \<open>_actors\<close>, \<open>_principal_id\<close>, \<open>_on_user_message\<close> and \<open>_llm_factory\<close>;
  the class has no attribute, property or \<open>__getattr__\<close> that would give
  \<open>events\<close>, and nothing in the sources assigns one. Reading the attribute
  therefore raises \<open>AttributeError\<close> before any query is made; the value is the
  text of that exception. The right-hand type is that of the \<open>message\<close> entries
  the query would have returned.
\<close>

definition registry_events_query :: "world \<Rightarrow> string + string list" where
  "registry_events_query w =
     Inl ([CHR 0x27] @ ''ActorRegistry'' @ [CHR 0x27] @ '' object has no attribute ''
          @ [CHR 0x27] @ ''events'' @ [CHR 0x27])"

text \<open>
  The state of the round's loop: the world, \<open>_status["last_error"]\<close>, the local
  \<open>user_message\<close>, and the exception that left the loop for the outer handler, if
  any.
\<close>

record round_state =
  rs_world :: world
  rs_last_error :: string
  rs_user_message :: "string option"
  rs_raised :: "string option"

definition next_user_message :: "string list \<Rightarrow> ActorMessage list \<Rightarrow> string \<Rightarrow> string option \<Rightarrow> string option" where
  "next_user_message evs history cortex_id user_message =
     (if evs \<noteq> [] then (if last evs \<noteq> [] then Some (last evs) else user_message)
      else (case extract_user_notification history cortex_id of
              None \<Rightarrow> user_message
            | Some x \<Rightarrow> if x \<noteq> [] then Some x else user_message))"

fun round_loop :: "round_env \<Rightarrow> string \<Rightarrow> nat \<Rightarrow> nat \<Rightarrow> nat \<Rightarrow> round_state \<Rightarrow> round_state" where
  "round_loop env cortex_id self 0 turn rs = rs"
| "round_loop env cortex_id self (Suc k) turn rs =
     (let w1 = set_turns (rs_world rs) self (int turn + 1)
      in if state (heap w1 self) = TERMINATED then rs\<lparr>rs_world := w1\<rparr>
         else
           (let w2 = snd (drain_inbox w1 self);
                t = round_llm env turn;
                w3 = run_events self w2 (events t)
            in case outcome t of
                 Inl e \<Rightarrow> rs\<lparr>rs_world := w3, rs_last_error := e\<rparr>
               | Inr r \<Rightarrow>
                   (case registry_events_query w3 of
                      Inl e \<Rightarrow> rs\<lparr>rs_world := w3, rs_raised := Some e\<rparr>
                    | Inr evs \<Rightarrow>
                        (let um = next_user_message evs (messages (heap w3 self)) cortex_id (rs_user_message rs);
                             rs1 = rs\<lparr>rs_world := w3, rs_user_message := um\<rparr>
                         in if state (heap w3 self) = TERMINATED then rs1
                            else round_loop env cortex_id self k (Suc turn) rs1))))"

text \<open>What follows the loop inside the \<open>try\<close>, and the handler of the outer \<open>except\<close>.\<close>

definition finish_round :: "round_env \<Rightarrow> nat \<Rightarrow> round_state \<Rightarrow> round_state" where
  "finish_round env self rs =
     (case rs_raised rs of
        None \<Rightarrow>
          if state (heap (rs_world rs) self) \<noteq> TERMINATED
          then rs\<lparr>rs_world := terminate True (rs_world rs) self
                     (Some (''Amygdala round complete (turn '' @ str_int (turns (heap (rs_world rs) self)) @ '')''))
                     (round_stamp_id env) (round_stamp_time env)\<rparr>
          else rs
      | Some e \<Rightarrow>
          if state (heap (rs_world rs) self) \<noteq> TERMINATED
          then rs\<lparr>rs_last_error := e,
                  rs_world := terminate True (rs_world rs) self (Some (''Error: '' @ e))
                     (round_stamp_id env) (round_stamp_time env)\<rparr>
          else rs\<lparr>rs_last_error := e\<rparr>)"

definition run_round :: "round_env \<Rightarrow> string \<Rightarrow> amygdala \<Rightarrow> world \<Rightarrow> string option \<times> amygdala \<times> world" where
  "run_round env cortex_id a w =
     (let st1 = (status a)\<lparr>status_state := ''running'', last_started_at := started_at env, last_error := []\<rparr>;
          c1 = compact_tag_log (compact_clock_start env) (tag_log a) st1;
          seeds = heuristic_seed_tags (recent_signals (signals_provider env));
          sp = spawn w amygdala_config (Some cortex_id) False (fresh_actor_id env);
          a1 = a\<lparr>status := snd c1, tag_log := fst c1, current_actor := Some (fst sp)\<rparr>
      in case llm_setup_error env of
           Some e \<Rightarrow> (Some e, a1, snd sp)
         | None \<Rightarrow>
             (let w2 = cleanup_terminated (snd sp);
                  rs = finish_round env (fst sp)
                         (round_loop env cortex_id (fst sp) (nat (max_turns amygdala_config)) 0
                            \<lparr>rs_world = w2, rs_last_error = last_error (snd c1),
                             rs_user_message = None, rs_raised = None\<rparr>);
                  w3 = rs_world rs;
                  res = (case result (heap w3 (fst sp)) of
                           None \<Rightarrow> ''No result'' | Some x \<Rightarrow> if x = [] then ''No result'' else x);
                  st3 = (snd c1)\<lparr>last_error := rs_last_error rs,
                                 rounds_total := rounds_total (snd c1) + 1,
                                 last_completed_at := completed_at env,
                                 last_turns := turns (heap w3 (fst sp)),
                                 last_result := take 240 res\<rparr>;
                  st4 = (case rs_user_message rs of
                           None \<Rightarrow> st3
                         | Some u \<Rightarrow> if u \<noteq> [] then st3\<lparr>last_alert := take 240 u\<rparr> else st3);
                  st5 = st4\<lparr>status_state := ''idle''\<rparr>;
                  patterns = update_active_patterns (active_patterns a) seeds;
                  hist = last_n 40 (round_history a @
                           [\<lparr>rr_started_at = started_at env, rr_completed_at = completed_at env,
                             rr_turns = turns (heap w3 (fst sp)),
                             rr_alert = (case rs_user_message rs of None \<Rightarrow> False | Some u \<Rightarrow> u \<noteq> []),
                             rr_error = last_error st5, rr_result = take 240 res\<rparr>]);
                  log2 = (case tag_log_written env of None \<Rightarrow> fst c1 | Some f \<Rightarrow> f);
                  c2 = compact_tag_log (compact_clock_end env) log2 st5
              in (None,
                  a\<lparr>status := snd c2, tag_log := fst c2, round_history := hist,
                    active_patterns := patterns, current_actor := None\<rparr>,
                  w3)))"

text \<open>The content of a user notification: the tag, a space and the payload.\<close>

definition notify_text :: "string \<Rightarrow> string" where
  "notify_text payload = ''[USER_NOTIFY] '' @ payload"

text \<open>
  \<open>keeps p w w'\<close>: from \<open>w\<close> to \<open>w'\<close> the actor at reference \<open>p\<close> is still an
  object handed out, with the same turn counter and the same configuration.
\<close>

definition keeps :: "nat \<Rightarrow> world \<Rightarrow> world \<Rightarrow> bool" where
  "keeps p w w' = (p < next_ref w' \<and> turns (heap w' p) = turns (heap w p) \<and> config (heap w' p) = config (heap w p))"

section \<open>Concrete worlds used by the examples\<close>

definition empty_world :: world where
  "empty_world = \<lparr>heap = (\<lambda>_. Actor_init \<lparr>name = [], group = ''default'', goals = [], model = [],
       tools = [], max_turns = 20, max_messages = 50\<rparr> None False []),
     next_ref = 0, actors = Map.empty, principal_id = None, tasks = []\<rparr>"

definition butler_config :: ActorConfig where
  "butler_config = \<lparr>name = ''butler'', group = ''main'', goals = ''Serve the user.'', model = [],
     tools = [], max_turns = 20, max_messages = 50\<rparr>"

definition worker_config :: ActorConfig where
  "worker_config = \<lparr>name = ''researcher'', group = ''main'', goals = ''Research the topic.'', model = [],
     tools = [''web_search'', ''read_file''], max_turns = 5, max_messages = 50\<rparr>"

text \<open>A registry with the principal \<open>butler\<close> (reference 0).\<close>

definition butler_world :: world where
  "butler_world = snd (spawn empty_world butler_config None True ''aaaaaaaa'')"

text \<open>The same with a worker spawned by the butler (reference 1).\<close>

definition team_world :: world where
  "team_world = snd (spawn butler_world worker_config (Some ''aaaaaaaa'') False ''bbbbbbbb'')"

text \<open>The worker has terminated once, outside any event loop, with result \<open>done\<close>.\<close>

definition done_world :: world where
  "done_world = terminate False team_world 1 (Some ''done'') ''0a0a0a0a'' 1"

text \<open>A pending queue as in the coalescing scenario: \<open>a\<close>, \<open>b\<close>, \<open>c\<close>.\<close>

definition abc_state :: "string ConversationState" where
  "abc_state = \<lparr>chat_id = 7, user_id = 1,
     pending_messages =
       [\<lparr>pm_content = ''a'', pm_metadata = [''user'' \<mapsto> ''ann'', ''lang'' \<mapsto> ''en''], pm_created_at = 1\<rparr>,
        \<lparr>pm_content = ''b'', pm_metadata = [''lang'' \<mapsto> ''de''], pm_created_at = 2\<rparr>,
        \<lparr>pm_content = ''c'', pm_metadata = Map.empty, pm_created_at = 3\<rparr>],
     is_processing = True, interrupt_event = True\<rparr>"

definition one_state :: "string ConversationState" where
  "one_state = \<lparr>chat_id = 7, user_id = 1,
     pending_messages = [\<lparr>pm_content = ''a'', pm_metadata = [''user'' \<mapsto> ''ann''], pm_created_at = 1\<rparr>],
     is_processing = True, interrupt_event = False\<rparr>"

text \<open>A stand-in for \<open>json.loads\<close> that knows one text.\<close>

definition sample_loads :: "string \<Rightarrow> json option" where
  \<open>sample_loads s = (if s = ''{"send_to_user": false, "continue_task": true, "reason": "still working"}''
     then Some (JObject [(''send_to_user'', JBool False), (''continue_task'', JBool True), (''reason'', JString ''still working'')])
     else None)\<close>

text \<open>A tag log of one line of 24001 characters, and an idle status.\<close>

definition long_line :: string where
  "long_line = replicate 24001 (CHR ''x'')"

definition status0 :: amygdala_status where
  "status0 = \<lparr>status_state = ''idle'', rounds_total = 0, last_started_at = [], last_completed_at = [],
     last_turns = 0, last_alert = [], last_result = [], last_error = [], tags_pruned_total = 0\<rparr>"

definition once_log :: string where
  "once_log = str_join [CHR 0x0A] (compaction_header ''2026-01-01 10:00 UTC'' 0 @ [long_line]) @ [CHR 0x0A]"

definition twice_log :: string where
  "twice_log = str_join [CHR 0x0A] (compaction_header ''2026-01-01 10:15 UTC'' 0
       @ compaction_header ''2026-01-01 10:00 UTC'' 0 @ [long_line]) @ [CHR 0x0A]"

text \<open>
  A worker with \<open>max_turns = 3\<close> (reference 1) and a model that always answers
  \<open>Still working...\<close> without calling a tool.
\<close>

definition slow_config :: ActorConfig where
  "slow_config = \<lparr>name = ''slow_worker'', group = ''main'', goals = ''Take forever'', model = [],
     tools = [], max_turns = 3, max_messages = 50\<rparr>"

definition slow_world :: world where
  "slow_world = snd (spawn butler_world slow_config (Some ''aaaaaaaa'') False ''dddddddd'')"

definition still_working :: runner_env where
  "still_working = \<lparr>setup_error = None,
     llm = (\<lambda>_. \<lparr>events = [], outcome = Inr ''Still working...'', wait_deliveries = []\<rparr>),
     stamp_id = ''0f0f0f0f'', stamp_time = 9, unbound_error = ''local variable referenced before assignment''\<rparr>"

text \<open>
  A heartbeat round as in the escalation scenario: the cortex is the butler, and the
  model, in its first turn, sends \<open>[USER_NOTIFY]\<close> with a payload to the cortex and
  terminates; the call returns \<open>done\<close>.
\<close>

definition amygdala0 :: amygdala where
  "amygdala0 = \<lparr>status = status0, tag_log = None, round_history = [], active_patterns = [], current_actor = None\<rparr>"

definition notify_env :: "string \<Rightarrow> round_env" where
  "notify_env payload = \<lparr>started_at = ''2026-01-01T10:00:00+00:00'', completed_at = ''2026-01-01T10:00:05+00:00'',
     compact_clock_start = ''2026-01-01 10:00 UTC'', compact_clock_end = ''2026-01-01 10:00 UTC'',
     signals_provider = Some (Inr ''the deploy failed again and I am furious''),
     fresh_actor_id = ''eeeeeeee'', llm_setup_error = None,
     round_llm = (\<lambda>_. \<lparr>events = [SendMessage ''aaaaaaaa'' (notify_text payload) [] ''1a1a1a1a'' 11,
                                  Terminate ''escalated'' ''1b1b1b1b'' 12],
                        outcome = Inr ''done'', wait_deliveries = []\<rparr>),
     tag_log_written = None,
     round_stamp_id = ''1c1c1c1c'', round_stamp_time = 13\<rparr>"

section \<open>Properties of the registry and of actors\<close>

lemmas world_defs =
  empty_world_def butler_config_def worker_config_def butler_world_def team_world_def done_world_def

lemmas actor_defs =
  spawn_def Actor_init_def get_def get_principal_def send_def send_to_def new_message_def
  terminated_notice_def on_actor_terminated_def terminate_result_def terminate_def
  send_message_def Let_def

lemma terminate_result_nonempty: "terminate_result actor r \<noteq> []"
  by (simp add: terminate_result_def split: option.splits)

lemma butler_world_principal:
  "get_principal butler_world = Some 0 \<and> is_principal (heap butler_world 0)
   \<and> state (heap butler_world 0) = RUNNING \<and> next_ref butler_world = 1"
  by (simp add: world_defs actor_defs)

text \<open>
  C1. The claim: while a principal is live, a second \<open>spawn\<close> with
  \<open>is_principal=true\<close> fails with \<open>PrincipalConflict\<close> and \<open>get_principal\<close>
  still returns the first principal. In the source \<open>spawn\<close> has no failing path and
  overwrites \<open>_principal_id\<close>: with the butler live at reference 0, a second
  principal spawn returns the new actor (reference 1), and \<open>get_principal\<close> then
  returns the new actor, not the butler.
\<close>

theorem spawn_second_principal_counterexample:
  "get_principal butler_world = Some 0
   \<and> is_principal (heap butler_world 0) \<and> state (heap butler_world 0) \<noteq> TERMINATED
   \<and> fst (spawn butler_world worker_config None True ''bbbbbbbb'') = 1
   \<and> get_principal (snd (spawn butler_world worker_config None True ''bbbbbbbb'')) = Some 1
   \<and> get_principal (snd (spawn butler_world worker_config None True ''bbbbbbbb''))
       \<noteq> get_principal butler_world"
  by (simp add: world_defs actor_defs)

text \<open>
  C1, as the code has it. Whenever a principal is live (registered at a reference \<open>p\<close>
  already handed out, flagged \<open>is_principal\<close>, not terminated) and the fresh id is
  not empty, a second principal spawn succeeds: it returns a new actor in state
  \<open>RUNNING\<close> flagged \<open>is_principal\<close>, \<open>get_principal\<close> returns that new
  actor, which is not the earlier principal, and the earlier principal's object is
  left as it was (still flagged and live).
\<close>

theorem spawn_second_principal_reassigns:
  assumes "get_principal w = Some p" and "p < next_ref w"
    and "is_principal (heap w p)" and "state (heap w p) \<noteq> TERMINATED"
    and "new_id \<noteq> []"
  shows "get_principal (snd (spawn w cfg parent True new_id)) = Some (fst (spawn w cfg parent True new_id))
     \<and> fst (spawn w cfg parent True new_id) \<noteq> p
     \<and> state (heap (snd (spawn w cfg parent True new_id)) (fst (spawn w cfg parent True new_id))) = RUNNING
     \<and> is_principal (heap (snd (spawn w cfg parent True new_id)) (fst (spawn w cfg parent True new_id)))
     \<and> heap (snd (spawn w cfg parent True new_id)) p = heap w p"
  using assms by (simp add: spawn_def get_principal_def Actor_init_def Let_def)

theorem spawn_second_principal_reassigns_witness:
  "get_principal butler_world = Some 0 \<and> 0 < next_ref butler_world
   \<and> is_principal (heap butler_world 0) \<and> state (heap butler_world 0) \<noteq> TERMINATED
   \<and> ''cccccccc'' \<noteq> []
   \<and> get_principal (snd (spawn butler_world worker_config None True ''cccccccc''))
       = Some (fst (spawn butler_world worker_config None True ''cccccccc''))
   \<and> fst (spawn butler_world worker_config None True ''cccccccc'') \<noteq> 0
   \<and> heap (snd (spawn butler_world worker_config None True ''cccccccc'')) 0 = heap butler_world 0"
proof -
  have h1: "get_principal butler_world = Some 0" and h2: "0 < next_ref butler_world"
    and h3: "is_principal (heap butler_world 0)" and h4: "state (heap butler_world 0) \<noteq> TERMINATED"
    using butler_world_principal by simp_all
  have h5: "''cccccccc'' \<noteq> []" by simp
  from spawn_second_principal_reassigns [OF h1 h2 h3 h4 h5, of worker_config None]
  show ?thesis using h1 h2 h3 h4 by simp
qed

section \<open>Termination is not idempotent\<close>

lemma done_world_facts:
  "state (heap done_world 1) = TERMINATED \<and> result (heap done_world 1) = Some ''done''
   \<and> actors done_world (actor_id (heap done_world 1)) = Some 1
   \<and> spawned_by (heap done_world 1) = ''aaaaaaaa''
   \<and> actors done_world ''aaaaaaaa'' = Some 0
   \<and> state (heap done_world 0) = RUNNING
   \<and> length (inbox (heap done_world 0)) = 1"
  by (simp add: world_defs actor_defs)

text \<open>
  C3. The claim: on an actor that is already \<open>Terminated\<close> with result \<open>r\<close>, a
  further \<open>terminate(r')\<close> changes nothing and produces no further message for the
  parent. In the source \<open>terminate\<close> has no check of the state: the worker of
  \<open>done_world\<close> terminated with \<open>done\<close> and its parent holds one
  \<open>[TERMINATED]\<close> message; after \<open>terminate("again")\<close> the stored result is
  \<open>again\<close> and the parent's inbox holds a second \<open>[TERMINATED]\<close> message.
\<close>

theorem terminate_twice_counterexample:
  "state (heap done_world 1) = TERMINATED \<and> result (heap done_world 1) = Some ''done''
   \<and> map content (inbox (heap done_world 0)) = [''[TERMINATED] researcher finished: done'']
   \<and> result (heap (terminate False done_world 1 (Some ''again'') ''0b0b0b0b'' 2) 1) = Some ''again''
   \<and> map content (inbox (heap (terminate False done_world 1 (Some ''again'') ''0b0b0b0b'' 2) 0))
       = [''[TERMINATED] researcher finished: done'', ''[TERMINATED] researcher finished: again'']"
  by (simp add: world_defs actor_defs)

text \<open>
  C3, as the code has it. For an actor at reference \<open>a\<close> that is already
  \<open>Terminated\<close>, a further \<open>terminate(r')\<close> keeps the state \<open>Terminated\<close>
  and overwrites the stored result with \<open>r'\<close>, or with the text
  \<open>Actor <name> terminated\<close> when \<open>r'\<close> is absent or empty. When moreover the
  actor is registered under its id and its parent is registered and \<open>Running\<close>, a
  further \<open>[TERMINATED]\<close> message carrying the new result is produced: appended to
  the parent's inbox and history when no event loop runs, added to the event loop's
  tasks otherwise.
\<close>

theorem terminate_again_overwrites:
  assumes "state (heap w a) = TERMINATED"
  shows "state (heap (terminate lr w a r' mid now) a) = TERMINATED
     \<and> result (heap (terminate lr w a r' mid now) a) =
         Some (if r' = None \<or> r' = Some [] then ''Actor '' @ name (config (heap w a)) @ '' terminated''
               else the r')
     \<and> (actors w (actor_id (heap w a)) = Some a \<and> spawned_by (heap w a) \<noteq> []
          \<and> actors w (spawned_by (heap w a)) = Some p \<and> state (heap w p) = RUNNING \<longrightarrow>
        inbox (heap (terminate False w a r' mid now) p) = inbox (heap w p) @
            [\<lparr>msg_id = mid, sender = actor_id (heap w a), recipient = spawned_by (heap w a),
               content = ''[TERMINATED] '' @ name (config (heap w a)) @ '' finished: '' @
                 (if r' = None \<or> r' = Some [] then ''Actor '' @ name (config (heap w a)) @ '' terminated''
                  else the r'),
               reply_to = None, created_at = now\<rparr>]
        \<and> messages (heap (terminate False w a r' mid now) p) = messages (heap w p) @
            [\<lparr>msg_id = mid, sender = actor_id (heap w a), recipient = spawned_by (heap w a),
               content = ''[TERMINATED] '' @ name (config (heap w a)) @ '' finished: '' @
                 (if r' = None \<or> r' = Some [] then ''Actor '' @ name (config (heap w a)) @ '' terminated''
                  else the r'),
               reply_to = None, created_at = now\<rparr>]
        \<and> tasks (terminate True w a r' mid now) = tasks w @
            [(p, \<lparr>msg_id = mid, sender = actor_id (heap w a), recipient = spawned_by (heap w a),
               content = ''[TERMINATED] '' @ name (config (heap w a)) @ '' finished: '' @
                 (if r' = None \<or> r' = Some [] then ''Actor '' @ name (config (heap w a)) @ '' terminated''
                  else the r'),
               reply_to = None, created_at = now\<rparr>)])"
proof -
  have tr: "terminate_result (heap w a) r' =
      (if r' = None \<or> r' = Some [] then ''Actor '' @ name (config (heap w a)) @ '' terminated''
       else the r')"
    by (cases r') (simp_all add: terminate_result_def)
  have st: "state (heap (terminate lr w a r' mid now) a) = TERMINATED"
    by (simp add: terminate_def on_actor_terminated_def Let_def split: option.splits)
  have rs: "result (heap (terminate lr w a r' mid now) a) = Some (terminate_result (heap w a) r')"
    by (simp add: terminate_def on_actor_terminated_def Let_def split: option.splits)
  have nt: "inbox (heap (terminate False w a r' mid now) p) = inbox (heap w p) @
            [\<lparr>msg_id = mid, sender = actor_id (heap w a), recipient = spawned_by (heap w a),
               content = ''[TERMINATED] '' @ name (config (heap w a)) @ '' finished: '' @
                 terminate_result (heap w a) r',
               reply_to = None, created_at = now\<rparr>]
        \<and> messages (heap (terminate False w a r' mid now) p) = messages (heap w p) @
            [\<lparr>msg_id = mid, sender = actor_id (heap w a), recipient = spawned_by (heap w a),
               content = ''[TERMINATED] '' @ name (config (heap w a)) @ '' finished: '' @
                 terminate_result (heap w a) r',
               reply_to = None, created_at = now\<rparr>]
        \<and> tasks (terminate True w a r' mid now) = tasks w @
            [(p, \<lparr>msg_id = mid, sender = actor_id (heap w a), recipient = spawned_by (heap w a),
               content = ''[TERMINATED] '' @ name (config (heap w a)) @ '' finished: '' @
                 terminate_result (heap w a) r',
               reply_to = None, created_at = now\<rparr>)]"
    if h: "actors w (actor_id (heap w a)) = Some a" "spawned_by (heap w a) \<noteq> []"
      "actors w (spawned_by (heap w a)) = Some p" "state (heap w p) = RUNNING"
  proof -
    from assms h have ap: "a \<noteq> p" by auto
    with h show ?thesis
      by (simp add: terminate_def on_actor_terminated_def terminated_notice_def Let_def
          terminate_result_nonempty)
  qed
  show ?thesis using st rs nt unfolding tr by blast
qed

theorem terminate_again_overwrites_witness:
  "state (heap done_world 1) = TERMINATED
   \<and> actors done_world (actor_id (heap done_world 1)) = Some 1
   \<and> spawned_by (heap done_world 1) \<noteq> []
   \<and> actors done_world (spawned_by (heap done_world 1)) = Some 0
   \<and> state (heap done_world 0) = RUNNING
   \<and> result (heap (terminate False done_world 1 (Some ''again'') ''0b0b0b0b'' 2) 1) = Some ''again''
   \<and> result (heap (terminate False done_world 1 None ''0b0b0b0b'' 2) 1) = Some ''Actor researcher terminated''
   \<and> map content (inbox (heap (terminate False done_world 1 (Some ''again'') ''0b0b0b0b'' 2) 0))
       = [''[TERMINATED] researcher finished: done'', ''[TERMINATED] researcher finished: again'']"
proof -
  have h1: "state (heap done_world 1) = TERMINATED"
    and h2: "actors done_world (actor_id (heap done_world 1)) = Some 1"
    and h3: "spawned_by (heap done_world 1) \<noteq> []"
    and h4: "actors done_world (spawned_by (heap done_world 1)) = Some 0"
    and h5: "state (heap done_world 0) = RUNNING"
    using done_world_facts by simp_all
  have n: "name (config (heap done_world 1)) = ''researcher''"
    and i: "map content (inbox (heap done_world 0)) = [''[TERMINATED] researcher finished: done'']"
    by (simp_all add: world_defs actor_defs)
  from terminate_again_overwrites [OF h1, where lr = False and r' = "Some ''again''"
      and mid = "''0b0b0b0b''" and now = 2 and p = 0]
    terminate_again_overwrites [OF h1, where lr = False and r' = None
      and mid = "''0b0b0b0b''" and now = 2 and p = 0]
  show ?thesis using h1 h2 h3 h4 h5 n i by simp
qed

section \<open>Sending: failure, success, terminated recipients\<close>

text \<open>
  C9. The claim has two parts. The first holds (see the theorem below): a missing
  recipient raises and leaves the world as it was. The second says that on success the
  message is appended to the sender's history exactly once. When an actor sends to its
  own id, the recipient's \<open>send\<close> and the sender's own append both add the message
  to the same history: the butler, with an empty history, sends to itself and its
  history then holds the message twice.
\<close>

theorem send_to_self_counterexample:
  "messages (heap butler_world 0) = []
   \<and> fst (send_to butler_world 0 ''aaaaaaaa'' ''note'' None ''0c0c0c0c'' 3)
       = Inr \<lparr>msg_id = ''0c0c0c0c'', sender = ''aaaaaaaa'', recipient = ''aaaaaaaa'',
              content = ''note'', reply_to = None, created_at = 3\<rparr>
   \<and> messages (heap (snd (send_to butler_world 0 ''aaaaaaaa'' ''note'' None ''0c0c0c0c'' 3)) 0)
       = [\<lparr>msg_id = ''0c0c0c0c'', sender = ''aaaaaaaa'', recipient = ''aaaaaaaa'',
              content = ''note'', reply_to = None, created_at = 3\<rparr>,
          \<lparr>msg_id = ''0c0c0c0c'', sender = ''aaaaaaaa'', recipient = ''aaaaaaaa'',
              content = ''note'', reply_to = None, created_at = 3\<rparr>]"
  by (simp add: world_defs actor_defs)

text \<open>
  C9, as the code has it. If the recipient id is not in the registry, \<open>send_to\<close>
  raises \<open>ValueError\<close> and the world after the call is the world before it (no
  history, no inbox, nothing else changes). If the id is registered at reference
  \<open>b\<close>, the call returns the constructed message, which is appended once to the
  recipient's inbox, and to the sender's history once when the recipient is another
  object and twice when the sender is the recipient.
\<close>

theorem send_to_atomic_on_failure:
  "(case get w r of
      None \<Rightarrow> send_to w a r c rt mid now = (Inl (ValueError (''Actor '' @ r @ '' not found'')), w)
    | Some b \<Rightarrow>
        fst (send_to w a r c rt mid now) = Inr (new_message w a r c rt mid now)
        \<and> inbox (heap (snd (send_to w a r c rt mid now)) b)
            = inbox (heap w b) @ [new_message w a r c rt mid now]
        \<and> messages (heap (snd (send_to w a r c rt mid now)) a)
            = messages (heap w a) @
              (if a = b then [new_message w a r c rt mid now, new_message w a r c rt mid now]
               else [new_message w a r c rt mid now]))"
  by (simp add: send_to_def send_def Let_def split: option.splits)

theorem send_to_atomic_on_failure_witness:
  "get team_world ''nobody'' = None
   \<and> send_to team_world 0 ''nobody'' ''hi'' None ''0d0d0d0d'' 4
       = (Inl (ValueError ''Actor nobody not found''), team_world)
   \<and> get team_world ''bbbbbbbb'' = Some 1
   \<and> messages (heap (snd (send_to team_world 0 ''bbbbbbbb'' ''hi'' None ''0d0d0d0d'' 4)) 0)
       = [new_message team_world 0 ''bbbbbbbb'' ''hi'' None ''0d0d0d0d'' 4]"
proof -
  have g1: "get team_world ''nobody'' = None" and g2: "get team_world ''bbbbbbbb'' = Some 1"
    and m: "messages (heap team_world 0) = []"
    by (simp_all add: world_defs actor_defs)
  from send_to_atomic_on_failure [where w = team_world and r = "''nobody''" and a = 0
      and c = "''hi''" and rt = None and mid = "''0d0d0d0d''" and now = 4]
    send_to_atomic_on_failure [where w = team_world and r = "''bbbbbbbb''" and a = 0
      and c = "''hi''" and rt = None and mid = "''0d0d0d0d''" and now = 4]
  show ?thesis using g1 g2 m by simp
qed

text \<open>
  C10. \<open>send_to\<close> does not look at the recipient's state. For a recipient registered
  at reference \<open>b\<close> and \<open>Terminated\<close>, \<open>send_to\<close> returns the message, which is
  appended to the recipient's inbox and history (the recipient stays \<open>Terminated\<close>),
  while the \<open>send_message\<close> tool returns the error string and leaves the world as it
  was.
\<close>

theorem send_to_terminated_recipient:
  assumes "get w r = Some b" and "state (heap w b) = TERMINATED"
  shows "fst (send_to w a r c rt mid now) = Inr (new_message w a r c rt mid now)
     \<and> content (new_message w a r c rt mid now) = c
     \<and> inbox (heap (snd (send_to w a r c rt mid now)) b)
         = inbox (heap w b) @ [new_message w a r c rt mid now]
     \<and> messages (heap (snd (send_to w a r c rt mid now)) b)
         = messages (heap w b) @
           (if a = b then [new_message w a r c rt mid now, new_message w a r c rt mid now]
            else [new_message w a r c rt mid now])
     \<and> state (heap (snd (send_to w a r c rt mid now)) b) = TERMINATED
     \<and> send_message w a r c rts mid now
         = (Inr (''Error: actor '' @ r @ '' ('' @ name (config (heap w b)) @ '') is terminated.''), w)"
  using assms by (auto simp add: send_to_def send_def send_message_def new_message_def Let_def)

theorem send_to_terminated_recipient_witness:
  "get done_world ''bbbbbbbb'' = Some 1 \<and> state (heap done_world 1) = TERMINATED
   \<and> fst (send_to done_world 0 ''bbbbbbbb'' ''are you there'' None ''0e0e0e0e'' 5)
       = Inr (new_message done_world 0 ''bbbbbbbb'' ''are you there'' None ''0e0e0e0e'' 5)
   \<and> inbox (heap (snd (send_to done_world 0 ''bbbbbbbb'' ''are you there'' None ''0e0e0e0e'' 5)) 1)
       = inbox (heap done_world 1) @ [new_message done_world 0 ''bbbbbbbb'' ''are you there'' None ''0e0e0e0e'' 5]
   \<and> send_message done_world 0 ''bbbbbbbb'' ''are you there'' [] ''0e0e0e0e'' 5
       = (Inr ''Error: actor bbbbbbbb (researcher) is terminated.'', done_world)"
proof -
  have h1: "get done_world ''bbbbbbbb'' = Some 1" and h2: "state (heap done_world 1) = TERMINATED"
    and n: "name (config (heap done_world 1)) = ''researcher''"
    by (simp_all add: world_defs actor_defs)
  from send_to_terminated_recipient [OF h1 h2, where a = 0 and c = "''are you there''"
      and rt = None and mid = "''0e0e0e0e''" and now = 5 and rts = "[]"]
  show ?thesis using h1 h2 n by simp
qed

section \<open>Coalescing of pending messages\<close>

lemma foldl_combine_fst: "fst (foldl combine_step acc ms) = fst acc @ map pm_content ms"
  by (induction ms arbitrary: acc) (simp_all add: combine_step_def)

lemma foldl_combine_snd:
  "snd (foldl combine_step acc ms) k =
     (case filter (\<lambda>m. pm_metadata m k \<noteq> None) (rev ms) of [] \<Rightarrow> snd acc k | m # _ \<Rightarrow> pm_metadata m k)"
proof (induction ms rule: rev_induct)
  case Nil
  then show ?case by simp
next
  case (snoc m ms)
  then show ?case by (auto simp add: combine_step_def map_add_def split: option.splits)
qed

lemma str_join_cons: "str_join sep (x # xs) = x @ concat (map (\<lambda>y. sep @ y) xs)"
  by (induction xs arbitrary: x) simp_all

lemma combine_all_fst: "fst (combine_all ms) = map pm_content ms"
  by (simp add: combine_all_def foldl_combine_fst)

lemma combine_all_snd:
  "snd (combine_all ms) k =
     (case filter (\<lambda>m. pm_metadata m k \<noteq> None) (rev ms) of [] \<Rightarrow> None | m # _ \<Rightarrow> pm_metadata m k)"
  unfolding combine_all_def by (subst foldl_combine_snd) (simp split: list.splits)


text \<open>
  C7. With two or more pending messages \<open>get_combined_message\<close> returns the
  contents in queue order, each later one preceded by the literal separator (two line
  feeds, three hyphens, a line feed, \<open>[Additional message while processing:]\<close> and a
  line feed); the
  merged metadata gives, for every key, the value of the latest message that carries
  the key (none when no message carries it); the pending list is empty afterwards and
  the manager's \<open>pending_count\<close> for the chat is 0. With exactly one pending message
  it returns that message's content and metadata and also leaves the list empty.
\<close>

theorem get_combined_message_coalesces:
  "(pending_messages st = m1 # m2 # ms \<longrightarrow>
      fst (fst (get_combined_message st)) =
        pm_content m1 @
        concat (map (\<lambda>m. [CHR 0x0A, CHR 0x0A] @ ''---'' @ [CHR 0x0A]
                          @ ''[Additional message while processing:]'' @ [CHR 0x0A] @ pm_content m)
                    (m2 # ms))
      \<and> (\<forall>k. snd (fst (get_combined_message st)) k =
            (case filter (\<lambda>m. pm_metadata m k \<noteq> None) (rev (m1 # m2 # ms)) of
               [] \<Rightarrow> None | m # _ \<Rightarrow> pm_metadata m k))
      \<and> pending_messages (snd (get_combined_message st)) = []
      \<and> get_pending_count (states(c \<mapsto> snd (get_combined_message st))) c = 0)
   \<and> (pending_messages st = [m] \<longrightarrow>
      fst (get_combined_message st) = (pm_content m, pm_metadata m)
      \<and> pending_messages (snd (get_combined_message st)) = [])"
proof (intro conjI impI)
  assume one: "pending_messages st = [m]"
  then show "fst (get_combined_message st) = (pm_content m, pm_metadata m)"
    by (simp add: get_combined_message_def Let_def)
  from one show "pending_messages (snd (get_combined_message st)) = []"
    by (simp add: get_combined_message_def Let_def)
next
  assume many: "pending_messages st = m1 # m2 # ms"
  then have r: "get_combined_message st =
      ((str_join additional_separator (fst (combine_all (m1 # m2 # ms))), snd (combine_all (m1 # m2 # ms))),
       st\<lparr>pending_messages := []\<rparr>)"
    by (simp add: get_combined_message_def Let_def)
  show "fst (fst (get_combined_message st)) =
          pm_content m1 @
          concat (map (\<lambda>m. [CHR 0x0A, CHR 0x0A] @ ''---'' @ [CHR 0x0A]
                            @ ''[Additional message while processing:]'' @ [CHR 0x0A] @ pm_content m)
                      (m2 # ms))"
    unfolding r by (simp add: combine_all_fst str_join_cons comp_def additional_separator_def)
  show "\<forall>k. snd (fst (get_combined_message st)) k =
          (case filter (\<lambda>m. pm_metadata m k \<noteq> None) (rev (m1 # m2 # ms)) of
             [] \<Rightarrow> None | m # _ \<Rightarrow> pm_metadata m k)"
    unfolding r using combine_all_snd [of "m1 # m2 # ms"] by simp
  show "pending_messages (snd (get_combined_message st)) = []"
    unfolding r by simp
  then show "get_pending_count (states(c \<mapsto> snd (get_combined_message st))) c = 0"
    by (simp add: get_pending_count_def)
qed

theorem get_combined_message_coalesces_witness:
  "fst (fst (get_combined_message abc_state))
     = ''a'' @ [CHR 0x0A, CHR 0x0A] @ ''---'' @ [CHR 0x0A] @ ''[Additional message while processing:]''
       @ [CHR 0x0A] @ ''b'' @ [CHR 0x0A, CHR 0x0A] @ ''---'' @ [CHR 0x0A]
       @ ''[Additional message while processing:]'' @ [CHR 0x0A] @ ''c''
   \<and> snd (fst (get_combined_message abc_state)) ''lang'' = Some ''de''
   \<and> snd (fst (get_combined_message abc_state)) ''user'' = Some ''ann''
   \<and> pending_messages (snd (get_combined_message abc_state)) = []
   \<and> fst (get_combined_message one_state) = (''a'', [''user'' \<mapsto> ''ann''])
   \<and> pending_messages (snd (get_combined_message one_state)) = []"
proof -
  have p3: "pending_messages abc_state =
      \<lparr>pm_content = ''a'', pm_metadata = [''user'' \<mapsto> ''ann'', ''lang'' \<mapsto> ''en''], pm_created_at = 1\<rparr>
      # \<lparr>pm_content = ''b'', pm_metadata = [''lang'' \<mapsto> ''de''], pm_created_at = 2\<rparr>
      # [\<lparr>pm_content = ''c'', pm_metadata = Map.empty, pm_created_at = 3\<rparr>]"
    by (simp add: abc_state_def)
  have p1: "pending_messages one_state =
      [\<lparr>pm_content = ''a'', pm_metadata = [''user'' \<mapsto> ''ann''], pm_created_at = 1\<rparr>]"
    by (simp add: one_state_def)
  from get_combined_message_coalesces [where st = abc_state, THEN conjunct1, rule_format, OF p3]
    get_combined_message_coalesces [where st = one_state, THEN conjunct2, rule_format, OF p1]
  show ?thesis by simp
qed

section \<open>Response judgment\<close>

lemmas judge_defs =
  judge_response_def judgment_of_def dict_get_def default_result_def sample_loads_def

text \<open>
  C4. The claim: whatever the model answers, an empty response gives
  \<open>send_to_user=false\<close> with \<open>continue_task\<close> decided by the iteration, and
  every other result with \<open>send_to_user=false\<close> has \<open>continue_task=false\<close>
  unless the caller passes an active-tool-execution flag. The source takes no such
  flag and returns the model's two values as parsed: for a non-empty response and a
  model answer with \<open>send_to_user=false\<close>, \<open>continue_task=true\<close> the result is
  exactly that, with either value of \<open>is_continuation\<close>. And with the analyzer
  disabled an empty response at iteration 0 gives the default, which has
  \<open>send_to_user=true\<close>.
\<close>

theorem judge_response_counterexample:
  \<open>send_to_user (judge_response sample_loads True True ''fix the build'' ''On it'' 0 False
       (Reply (Some ''{"send_to_user": false, "continue_task": true, "reason": "still working"}''))) = JBool False
   \<and> continue_task (judge_response sample_loads True True ''fix the build'' ''On it'' 0 False
       (Reply (Some ''{"send_to_user": false, "continue_task": true, "reason": "still working"}''))) = JBool True
   \<and> continue_task (judge_response sample_loads True True ''fix the build'' ''On it'' 0 True
       (Reply (Some ''{"send_to_user": false, "continue_task": true, "reason": "still working"}''))) = JBool True
   \<and> send_to_user (judge_response sample_loads False True ''fix the build'' [] 0 False CallRaised) = JBool True\<close>
  by (simp add: judge_defs)

text \<open>
  C4, as the code has it. With the analyzer disabled, or its agent unavailable, the
  result is the default (\<open>send_to_user=true\<close>, \<open>continue_task=false\<close>). Otherwise
  an empty response gives \<open>send_to_user=false\<close> and \<open>continue_task=true\<close> up to
  iteration 2, and both false after it. For a non-empty response whose model answer
  parses to an object, the result carries the object's own \<open>send_to_user\<close> and
  \<open>continue_task\<close> entries, unchecked (true and false where an entry is missing).
  The flag \<open>is_continuation\<close> is written into the prompt and tested nowhere else:
  each of these rules holds for either value of it, given what the model call gave.
\<close>

theorem judge_response_rules:
  "(\<not> enabled \<or> \<not> agent_ok \<longrightarrow>
      judge_response loads enabled agent_ok req resp iteration cont reply =
        \<lparr>send_to_user = JBool True, continue_task = JBool False, reason = JString ''default''\<rparr>)
   \<and> (enabled \<and> agent_ok \<and> resp = [] \<and> iteration \<le> 2 \<longrightarrow>
      send_to_user (judge_response loads enabled agent_ok req resp iteration cont reply) = JBool False
      \<and> continue_task (judge_response loads enabled agent_ok req resp iteration cont reply) = JBool True)
   \<and> (enabled \<and> agent_ok \<and> resp = [] \<and> iteration > 2 \<longrightarrow>
      send_to_user (judge_response loads enabled agent_ok req resp iteration cont reply) = JBool False
      \<and> continue_task (judge_response loads enabled agent_ok req resp iteration cont reply) = JBool False)
   \<and> (enabled \<and> agent_ok \<and> resp \<noteq> [] \<and> reply = Reply (Some t) \<and> t \<noteq> []
        \<and> loads t = Some (JObject kvs) \<longrightarrow>
      send_to_user (judge_response loads enabled agent_ok req resp iteration cont reply)
        = (case map_of kvs ''send_to_user'' of None \<Rightarrow> JBool True | Some v \<Rightarrow> v)
      \<and> continue_task (judge_response loads enabled agent_ok req resp iteration cont reply)
        = (case map_of kvs ''continue_task'' of None \<Rightarrow> JBool False | Some v \<Rightarrow> v))"
  by (auto simp add: judge_response_def judgment_of_def default_result_def dict_get_def)

theorem judge_response_rules_witness:
  \<open>judge_response sample_loads False True ''fix the build'' [] 0 False CallRaised
     = \<lparr>send_to_user = JBool True, continue_task = JBool False, reason = JString ''default''\<rparr>
   \<and> send_to_user (judge_response sample_loads True True ''fix the build'' [] 2 False CallRaised) = JBool False
   \<and> continue_task (judge_response sample_loads True True ''fix the build'' [] 2 False CallRaised) = JBool True
   \<and> send_to_user (judge_response sample_loads True True ''fix the build'' [] 3 False CallRaised) = JBool False
   \<and> continue_task (judge_response sample_loads True True ''fix the build'' [] 3 False CallRaised) = JBool False
   \<and> continue_task (judge_response sample_loads True True ''fix the build'' ''On it'' 5 False
       (Reply (Some ''{"send_to_user": false, "continue_task": true, "reason": "still working"}''))) = JBool True\<close>
proof -
  have l: \<open>sample_loads ''{"send_to_user": false, "continue_task": true, "reason": "still working"}''
      = Some (JObject [(''send_to_user'', JBool False), (''continue_task'', JBool True),
                       (''reason'', JString ''still working'')])\<close>
    by (simp add: sample_loads_def)
  from judge_response_rules [where loads = sample_loads and enabled = False and agent_ok = True
      and req = "''fix the build''" and resp = "[]" and iteration = 0 and cont = False and reply = CallRaised]
    judge_response_rules [where loads = sample_loads and enabled = True and agent_ok = True
      and req = "''fix the build''" and resp = "[]" and iteration = 2 and cont = False and reply = CallRaised]
    judge_response_rules [where loads = sample_loads and enabled = True and agent_ok = True
      and req = "''fix the build''" and resp = "[]" and iteration = 3 and cont = False and reply = CallRaised]
    judge_response_rules [where loads = sample_loads and enabled = True and agent_ok = True
      and req = "''fix the build''" and resp = "''On it''" and iteration = 5 and cont = False
      and reply = \<open>Reply (Some ''{"send_to_user": false, "continue_task": true, "reason": "still working"}'')\<close>
      and t = \<open>''{"send_to_user": false, "continue_task": true, "reason": "still working"}''\<close>
      and kvs = "[(''send_to_user'', JBool False), (''continue_task'', JBool True),
                  (''reason'', JString ''still working'')]"]
  show ?thesis using l by (simp add: default_result_def)
qed

section \<open>Seed tags\<close>

lemmas cue_defs =
  has_positive_def has_negative_def has_contrast_def has_sarcasm_def has_urgency_def
  has_risk_def any_in_def

lemmas string_defs =
  lower_def lower_char_def strip_def lstrip_def rstrip_def is_space_def splitlines_def
  is_linebreak_def last_n_def

text \<open>
  C6. The claim: a line with a positive cue and a negation, contrast or sarcasm cue is
  emitted with valence exactly -0.6. The source subtracts 0.6 from the valence the
  other cues gave: the line \<open>great but slow\<close> has a positive and a contrast cue and
  no negative one, and its seed has valence 0.5 - 0.6 = -0.1.
\<close>

theorem heuristic_seed_tags_counterexample:
  "has_positive (lower ''great but slow'') \<and> has_contrast (lower ''great but slow'')
   \<and> heuristic_seed_tags ''great but slow''
       = [\<lparr>signal = ''great but slow'', valence = - 1 / 10, arousal = 3 / 10,
           tags = [''positive_affect'', ''mixed_or_ironic''], high_arousal = False\<rparr>]
   \<and> valence (hd (heuristic_seed_tags ''great but slow'')) \<noteq> - 6 / 10"
  by (simp add: heuristic_seed_tags_def seed_of_line_def cue_defs string_defs
      HIGH_AROUSAL_THRESHOLD_def Let_def)

text \<open>
  C6, as the code has it. Every seed has valence in [-1,1] and arousal in [0,1]. For
  a line with a positive cue together with a negative, contrast or sarcasm cue, the
  valence is 0.6 below what the other cues yield: -0.6 when a negative cue is present
  (they cancel the positive one) and -0.1 otherwise; the arousal is 0.1 above what
  the other cues yield, capped at 1; and the tags contain \<open>mixed_or_ironic\<close>.
\<close>

theorem seed_of_mixed_line:
  "- 1 \<le> valence (seed_of_line line) \<and> valence (seed_of_line line) \<le> 1
   \<and> 0 \<le> arousal (seed_of_line line) \<and> arousal (seed_of_line line) \<le> 1
   \<and> (has_positive (lower line)
        \<and> (has_negative (lower line) \<or> has_contrast (lower line) \<or> has_sarcasm (lower line)) \<longrightarrow>
      valence (seed_of_line line) = (if has_negative (lower line) then - 6 / 10 else - 1 / 10)
      \<and> arousal (seed_of_line line) =
          min 1 (2 / 10 + (if has_urgency (lower line) then 4 / 10 else 0)
                 + (if has_negative (lower line) then 25 / 100 else 0) + 1 / 10
                 + (if has_risk (lower line) then 2 / 10 else 0))
      \<and> ''mixed_or_ironic'' \<in> set (tags (seed_of_line line)))"
  by (simp add: seed_of_line_def Let_def)

theorem seed_of_mixed_line_witness:
  "has_positive (lower ''Thanks, but the deploy FAILED again'')
   \<and> has_negative (lower ''Thanks, but the deploy FAILED again'')
   \<and> valence (seed_of_line ''Thanks, but the deploy FAILED again'') = - 6 / 10
   \<and> arousal (seed_of_line ''Thanks, but the deploy FAILED again'') = 95 / 100
   \<and> ''mixed_or_ironic'' \<in> set (tags (seed_of_line ''Thanks, but the deploy FAILED again''))"
proof -
  have c: "has_positive (lower ''Thanks, but the deploy FAILED again'')"
    "has_negative (lower ''Thanks, but the deploy FAILED again'')"
    "has_urgency (lower ''Thanks, but the deploy FAILED again'')"
    "\<not> has_risk (lower ''Thanks, but the deploy FAILED again'')"
    by (simp_all add: cue_defs string_defs)
  from seed_of_mixed_line [of "''Thanks, but the deploy FAILED again''"]
  show ?thesis using c by simp
qed

section \<open>Tag-log compaction\<close>


lemma no_breaks_iff: "no_breaks l = (\<forall>c \<in> set l. \<not> is_linebreak c)"
  by (simp add: no_breaks_def list_all_iff)

lemma LF_break: "is_linebreak (CHR 0x0A)" by (simp add: is_linebreak_def)
lemma CR_break: "is_linebreak (CHR 0x0D)" by (simp add: is_linebreak_def)

lemma splitlines_from_line:
  "no_breaks l \<Longrightarrow> splitlines_from cur (l @ CHR 0x0A # rest) = (rev cur @ l) # splitlines_from [] rest"
proof (induction l arbitrary: cur)
  case Nil
  then show ?case by (cases rest) (simp_all add: LF_break)
next
  case (Cons a l)
  then have a: "\<not> is_linebreak a" and l: "no_breaks l" by (simp_all add: no_breaks_iff)
  from a have "a \<noteq> CHR 0x0D" using CR_break by auto
  obtain d cs where dc: "l @ CHR 0x0A # rest = d # cs" by (cases "l @ CHR 0x0A # rest") auto
  have "splitlines_from cur (a # l @ CHR 0x0A # rest) = splitlines_from (a # cur) (l @ CHR 0x0A # rest)"
    using a \<open>a \<noteq> CHR 0x0D\<close> by (simp add: dc)
  with Cons.IH [OF l] show ?case by simp
qed

lemma splitlines_from_last:
  "no_breaks l \<Longrightarrow> cur \<noteq> [] \<or> l \<noteq> [] \<Longrightarrow> splitlines_from cur l = [rev cur @ l]"
proof (induction l arbitrary: cur)
  case Nil
  then show ?case by simp
next
  case (Cons a l)
  then have a: "\<not> is_linebreak a" and l: "no_breaks l" by (simp_all add: no_breaks_iff)
  from a have ne: "a \<noteq> CHR 0x0D" using CR_break by auto
  show ?case
  proof (cases l)
    case Nil
    then show ?thesis using a by simp
  next
    case (Cons d cs)
    then have "splitlines_from cur (a # l) = splitlines_from (a # cur) l" using a ne by simp
    with Cons.IH [OF l, of "a # cur"] show ?thesis by simp
  qed
qed

lemma splitlines_join_cons:
  "\<forall>l \<in> set (x # xs). no_breaks l \<Longrightarrow>
     splitlines_from [] (str_join [CHR 0x0A] (x # xs) @ [CHR 0x0A]) = x # xs"
proof (induction xs arbitrary: x)
  case Nil
  then show ?case using splitlines_from_line [of x "[]" "[]"] by simp
next
  case (Cons y ys)
  then have x: "no_breaks x" and r: "\<forall>l \<in> set (y # ys). no_breaks l" by simp_all
  from splitlines_from_line [OF x, of "[]" "str_join [CHR 0x0A] (y # ys) @ [CHR 0x0A]"] Cons.IH [OF r]
  show ?case by simp
qed

lemma splitlines_join:
  "ls \<noteq> [] \<Longrightarrow> \<forall>l \<in> set ls. no_breaks l \<Longrightarrow> splitlines (str_join [CHR 0x0A] ls @ [CHR 0x0A]) = ls"
  by (cases ls) (simp_all only: splitlines_def splitlines_join_cons list.simps not_False_eq_True)

lemma rstrip_keep: "s \<noteq> [] \<Longrightarrow> \<not> is_space (last s) \<Longrightarrow> rstrip s = s"
  by (cases s rule: rev_cases) (simp_all add: rstrip_def)

lemma lstrip_keep: "s \<noteq> [] \<Longrightarrow> \<not> is_space (hd s) \<Longrightarrow> lstrip s = s"
  by (cases s) (simp_all add: lstrip_def)

lemma strip_keep: "s \<noteq> [] \<Longrightarrow> \<not> is_space (hd s) \<Longrightarrow> \<not> is_space (last s) \<Longrightarrow> strip s = s"
  by (simp add: strip_def rstrip_keep lstrip_keep)

lemma rstrip_append_keep: "a \<noteq> [] \<Longrightarrow> \<not> is_space (last a) \<Longrightarrow> rstrip (a @ y) = a @ rstrip y"
  by (cases a rule: rev_cases) (auto simp add: rstrip_def dropWhile_append)

lemma strip_append_keep:
  assumes "a \<noteq> []" and "\<not> is_space (hd a)" and "\<not> is_space (last a)"
  shows "strip (a @ y) = a @ rstrip y"
proof -
  have "rstrip (a @ y) = a @ rstrip y" using assms by (simp add: rstrip_append_keep)
  moreover have "lstrip (a @ rstrip y) = a @ rstrip y"
    using assms by (intro lstrip_keep) simp_all
  ultimately show ?thesis by (simp add: strip_def)
qed

lemma long_line_facts:
  "length long_line = 24001" "long_line \<noteq> []" "hd long_line = CHR ''x''" "last long_line = CHR ''x''"
  "no_breaks long_line" "\<not> is_header_line long_line"
proof -
  show "length long_line = 24001" by (simp only: long_line_def length_replicate)
  then show ne: "long_line \<noteq> []" by auto
  have z: "(24001::nat) \<noteq> 0" by simp
  show h: "hd long_line = CHR ''x''" unfolding long_line_def using z by (rule hd_replicate)
  show "last long_line = CHR ''x''" unfolding long_line_def using z by (rule last_replicate)
  have s: "set long_line = {CHR ''x''}" unfolding long_line_def using z by (rule set_replicate)
  show "no_breaks long_line" unfolding no_breaks_iff s by (simp add: is_linebreak_def)
  show "\<not> is_header_line long_line"
  proof
    assume "is_header_line long_line"
    then obtain r where "long_line = ''# Emotional tags (compacted at '' @ r"
      by (auto simp add: is_header_line_def prefix_def)
    then have "hd long_line = hd (''# Emotional tags (compacted at '' @ r)" by (rule arg_cong)
    then have "hd long_line = CHR ''#''" by simp
    with h show False by simp
  qed
qed

lemma header_block_ends:
  "''# Emotional tags (compacted at '' @ now @ '')'' @ [CHR 0x0A] @ ''- pruned_lines: '' @ n @ [CHR 0x0A]
     @ ''- note: keeping only recent rolling window'' \<noteq> []"
  "\<not> is_space (hd (''# Emotional tags (compacted at '' @ now @ '')'' @ [CHR 0x0A] @ ''- pruned_lines: '' @ n @ [CHR 0x0A]
     @ ''- note: keeping only recent rolling window''))"
  "\<not> is_space (last (''# Emotional tags (compacted at '' @ now @ '')'' @ [CHR 0x0A] @ ''- pruned_lines: '' @ n @ [CHR 0x0A]
     @ ''- note: keeping only recent rolling window''))"
  by (simp_all add: is_space_def)

lemma last_n_all: "length xs \<le> n \<Longrightarrow> last_n n xs = xs"
  by (simp add: last_n_def)

lemma length_last_n: "length (last_n n xs) = min n (length xs)"
  by (simp add: last_n_def)

lemma compact_rewrite:
  assumes "length c > 24000"
  shows "compact_tag_log now (Some c) st =
     (Some (header_block now (length (splitlines c) - 140)
            @ rstrip (CHR 0x0A # concat (map (\<lambda>l. CHR 0x0A # l) (last_n 140 (splitlines c)))) @ [CHR 0x0A]),
      st\<lparr>tags_pruned_total := tags_pruned_total st + int (length (splitlines c) - 140)\<rparr>)"
proof -
  let ?ls = "splitlines c"
  have j: "str_join [CHR 0x0A] (compaction_header now n @ ks) =
      (''# Emotional tags (compacted at '' @ now @ '')'' @ [CHR 0x0A] @ ''- pruned_lines: '' @ str_nat n @ [CHR 0x0A]
     @ ''- note: keeping only recent rolling window'') @ (CHR 0x0A # concat (map (\<lambda>l. CHR 0x0A # l) ks))" for n ks
    by (simp add: compaction_header_def str_join_cons)
  have s: "strip (str_join [CHR 0x0A] (compaction_header now n @ ks)) =
      header_block now n @ rstrip (CHR 0x0A # concat (map (\<lambda>l. CHR 0x0A # l) ks))" for n ks
    unfolding j header_block_def by (rule strip_append_keep) (rule header_block_ends)+
  show ?thesis
  proof (cases "140 < length ?ls")
    case True
    then have "length ?ls - length (last_n 140 ?ls) = length ?ls - 140" by (simp add: length_last_n)
    with True assms show ?thesis
      by (simp add: compact_tag_log_def TAG_LOG_MAX_CHARS_def TAG_LOG_KEEP_LINES_def Let_def s
         )
  next
    case False
    then have "last_n 140 ?ls = ?ls" and "length ?ls - 140 = 0" by (simp_all add: last_n_all)
    with False assms show ?thesis
      by (simp add: compact_tag_log_def TAG_LOG_MAX_CHARS_def TAG_LOG_KEEP_LINES_def Let_def s
         )
  qed
qed


lemma str_nat_0: "str_nat 0 = ''0''" by (simp add: str_nat.simps [of 0])

lemma rstrip_Cons:
  "rstrip (c # s) = (if rstrip s = [] then (if is_space c then [] else [c]) else c # rstrip s)"
  by (auto simp add: rstrip_def dropWhile_append)

lemma rstrip_long: "rstrip long_line = long_line"
  by (rule rstrip_keep) (simp_all add: long_line_facts is_space_def)

lemma no_breaks_header: "\<forall>l \<in> set (compaction_header ''2026-01-01 10:00 UTC'' 0). no_breaks l"
  "\<forall>l \<in> set (compaction_header ''2026-01-01 10:15 UTC'' 0). no_breaks l"
  by (simp_all add: compaction_header_def str_nat_0 no_breaks_iff is_linebreak_def)

lemma splitlines_long: "splitlines long_line = [long_line]"
  using splitlines_from_last [of long_line "[]"] by (simp add: splitlines_def long_line_facts)

lemma splitlines_once:
  "splitlines once_log = compaction_header ''2026-01-01 10:00 UTC'' 0 @ [long_line]"
  unfolding once_log_def
  by (rule splitlines_join) (use no_breaks_header in \<open>simp_all add: long_line_facts\<close>)

lemma splitlines_twice:
  "splitlines twice_log = compaction_header ''2026-01-01 10:15 UTC'' 0
       @ compaction_header ''2026-01-01 10:00 UTC'' 0 @ [long_line]"
  unfolding twice_log_def
  by (rule splitlines_join) (use no_breaks_header in \<open>auto simp add: long_line_facts\<close>)

lemma compact_once:
  "compact_tag_log ''2026-01-01 10:00 UTC'' (Some long_line) status0 = (Some once_log, status0)"
proof -
  have l: "24000 < length long_line" by (simp add: long_line_facts)
  show ?thesis
    unfolding compact_rewrite [OF l] splitlines_long
    by (simp add: last_n_def rstrip_Cons rstrip_long long_line_facts(2) str_nat_0 once_log_def
        compaction_header_def header_block_def status0_def)
qed

lemma length_once: "24000 < length once_log"
  by (simp add: once_log_def compaction_header_def long_line_facts)

lemma rstrip_before_long: "rstrip (pre @ long_line) = pre @ long_line"
  by (rule rstrip_keep) (simp_all add: long_line_facts is_space_def)

lemma compact_twice:
  "compact_tag_log ''2026-01-01 10:15 UTC'' (Some once_log) status0 = (Some twice_log, status0)"
proof -
  let ?H = "compaction_header ''2026-01-01 10:00 UTC'' 0"
  let ?f = "\<lambda>l. CHR 0x0A # l"
  have n: "length (?H @ [long_line]) = 5" by (simp add: compaction_header_def)
  then have k: "last_n 140 (?H @ [long_line]) = ?H @ [long_line]"
    and z: "length (?H @ [long_line]) - 140 = 0"
    by (simp_all add: last_n_all)
  have e: "CHR 0x0A # concat (map ?f (?H @ [long_line]))
      = (CHR 0x0A # concat (map ?f ?H) @ [CHR 0x0A]) @ long_line"
    by simp
  have r: "rstrip (CHR 0x0A # concat (map ?f (?H @ [long_line])))
      = CHR 0x0A # concat (map ?f (?H @ [long_line]))"
    unfolding e by (rule rstrip_before_long)
  have t: "header_block ''2026-01-01 10:15 UTC'' 0 @ (CHR 0x0A # concat (map ?f (?H @ [long_line]))) @ [CHR 0x0A]
      = twice_log"
    by (simp add: twice_log_def compaction_header_def header_block_def)
  have s: "status0\<lparr>tags_pruned_total := tags_pruned_total status0 + int 0\<rparr> = status0"
    by (simp add: status0_def)
  show ?thesis
    unfolding compact_rewrite [OF length_once] splitlines_once k z r t s ..
qed

lemma header_lines_twice:
  "header_lines (Some twice_log) =
     [''# Emotional tags (compacted at 2026-01-01 10:15 UTC)'', ''# Emotional tags (compacted at 2026-01-01 10:00 UTC)'']"
  by (simp add: header_lines_def splitlines_twice compaction_header_def is_header_line_def
      long_line_facts(6) [unfolded is_header_line_def] str_nat_0)


text \<open>
  C5. The claim ends: after any sequence of compactions the compaction header appears
  at most once, and \<open>tags_pruned_total\<close> is incremented. A log of one line of 24001
  characters is above the threshold and has fewer than 140 lines: the first compaction
  keeps the line under a header, drops nothing and adds 0 to the counter; the result
  is still above the threshold, and the second compaction keeps the first header as an
  ordinary line under a new one. The log then has two header lines.
\<close>

theorem compact_tag_log_counterexample:
  "length long_line > 24000
   \<and> compact_tag_log ''2026-01-01 10:00 UTC'' (Some long_line) status0 = (Some once_log, status0)
   \<and> compact_tag_log ''2026-01-01 10:15 UTC'' (Some once_log) status0 = (Some twice_log, status0)
   \<and> header_lines (Some twice_log) =
       [''# Emotional tags (compacted at 2026-01-01 10:15 UTC)'',
        ''# Emotional tags (compacted at 2026-01-01 10:00 UTC)'']
   \<and> tags_pruned_total status0 = 0"
  using compact_once compact_twice header_lines_twice
  by (simp add: long_line_facts status0_def)

text \<open>
  C5, as the code has it. A missing log, or one of at most 24000 characters, is left
  as it is, and so is the status. A longer log is rewritten: the new content starts
  with the header line, the line \<open>- pruned_lines: N\<close> and the line
  \<open>- note: keeping only recent rolling window\<close>; then come an empty line and the last
  140 lines of the old content (all of them when there are fewer), with whitespace at
  the very end removed and one line feed appended. \<open>N\<close> is the number of lines
  dropped (0 when there are at most 140), and \<open>tags_pruned_total\<close> grows by \<open>N\<close>.
\<close>

theorem compact_tag_log_rewrites:
  "compact_tag_log now None st = (None, st)
   \<and> compact_tag_log now (Some c) st =
      (if length c \<le> 24000 then (Some c, st)
       else (Some (header_block now (length (splitlines c) - 140)
                   @ rstrip (CHR 0x0A # concat (map (\<lambda>l. CHR 0x0A # l) (last_n 140 (splitlines c))))
                   @ [CHR 0x0A]),
             st\<lparr>tags_pruned_total := tags_pruned_total st + int (length (splitlines c) - 140)\<rparr>))"
proof
  show "compact_tag_log now None st = (None, st)"
    by (simp add: compact_tag_log_def)
next
  show "compact_tag_log now (Some c) st =
      (if length c \<le> 24000 then (Some c, st)
       else (Some (header_block now (length (splitlines c) - 140)
                   @ rstrip (CHR 0x0A # concat (map (\<lambda>l. CHR 0x0A # l) (last_n 140 (splitlines c))))
                   @ [CHR 0x0A]),
             st\<lparr>tags_pruned_total := tags_pruned_total st + int (length (splitlines c) - 140)\<rparr>))"
  proof (cases "length c \<le> 24000")
    case True
    then show ?thesis by (simp add: compact_tag_log_def TAG_LOG_MAX_CHARS_def)
  next
    case False
    then have "24000 < length c" by simp
    from compact_rewrite [OF this] False show ?thesis by simp
  qed
qed

theorem compact_tag_log_rewrites_witness:
  "compact_tag_log ''2026-01-01 10:00 UTC'' (Some ''- tag: calm'') status0 = (Some ''- tag: calm'', status0)
   \<and> fst (compact_tag_log ''2026-01-01 10:00 UTC'' (Some long_line) status0) =
       Some (header_block ''2026-01-01 10:00 UTC'' 0 @ [CHR 0x0A, CHR 0x0A] @ long_line @ [CHR 0x0A])"
proof -
  have l: "\<not> length long_line \<le> 24000" by (simp add: long_line_facts)
  from compact_tag_log_rewrites [of "''2026-01-01 10:00 UTC''" status0 "''- tag: calm''"]
    compact_tag_log_rewrites [of "''2026-01-01 10:00 UTC''" status0 long_line]
  show ?thesis using l
    by (simp add: splitlines_long last_n_def rstrip_Cons rstrip_long long_line_facts(2))
qed

section \<open>The runner's bound\<close>

lemma keeps_refl: "p < next_ref w \<Longrightarrow> keeps p w w" by (simp add: keeps_def)
lemma keeps_trans: "keeps p w w1 \<Longrightarrow> keeps p w1 w2 \<Longrightarrow> keeps p w w2" by (simp add: keeps_def)

lemma keeps_send: "p < next_ref w \<Longrightarrow> keeps p w (send w q m)"
  by (simp add: keeps_def send_def Let_def)

lemma keeps_pop: "p < next_ref w \<Longrightarrow> keeps p w (pop_inbox w q)"
  by (simp add: keeps_def pop_inbox_def)

lemma keeps_terminate: "p < next_ref w \<Longrightarrow> keeps p w (terminate lr w q r mid now)"
  by (simp add: keeps_def terminate_def on_actor_terminated_def Let_def split: option.splits)

lemma keeps_send_message: "p < next_ref w \<Longrightarrow> keeps p w (snd (send_message w q aid text rt mid now))"
  by (simp add: keeps_def send_message_def send_to_def send_def Let_def split: option.splits)

lemma keeps_spawn: "p < next_ref w \<Longrightarrow> keeps p w (snd (spawn w cfg parent pr new_id))"
  by (simp add: keeps_def spawn_def Let_def)

lemma keeps_event: "p < next_ref w \<Longrightarrow> keeps p w (run_event q w ev)"
  by (cases ev) (simp_all add: keeps_send keeps_pop keeps_terminate keeps_send_message keeps_spawn
      keeps_refl terminate_tool_def spawn_subagent_def Let_def)

lemma keeps_events: "p < next_ref w \<Longrightarrow> keeps p w (run_events q w evs)"
proof (induction evs arbitrary: w)
  case Nil
  then show ?case by (simp add: run_events_def keeps_refl)
next
  case (Cons ev evs)
  have k1: "keeps p w (run_event q w ev)" using Cons.prems by (rule keeps_event)
  then have "p < next_ref (run_event q w ev)" by (simp add: keeps_def)
  from Cons.IH [OF this] have "keeps p (run_event q w ev) (run_events q (run_event q w ev) evs)" .
  with k1 show ?case by (simp add: run_events_def keeps_def)
qed

lemma keeps_deliveries: "p < next_ref w \<Longrightarrow> keeps p w (foldl (\<lambda>v m. send v q m) w ds)"
proof (induction ds arbitrary: w)
  case Nil
  then show ?case by (simp add: keeps_refl)
next
  case (Cons d ds)
  have k1: "keeps p w (send w q d)" using Cons.prems by (rule keeps_send)
  then have "p < next_ref (send w q d)" by (simp add: keeps_def)
  from Cons.IH [OF this] k1 show ?case by (simp add: keeps_def)
qed

lemma keeps_wait: "p < next_ref w \<Longrightarrow> keeps p w (wait_briefly w q ds)"
  unfolding wait_briefly_def
  by (metis keeps_deliveries keeps_pop keeps_trans keeps_def)

lemma terminate_state: "state (heap (terminate True w p r mid now) p) = TERMINATED"
  by (simp add: terminate_def on_actor_terminated_def Let_def split: option.splits)

lemma terminate_result_eq: "result (heap (terminate True w p r mid now) p) = Some (terminate_result (heap w p) r)"
  by (simp add: terminate_def on_actor_terminated_def Let_def split: option.splits)

text \<open>
  The loop invariant: the actor's configuration is never touched; after at least one
  iteration the turn counter lies between the first and the last value of the loop
  variable plus one; and if the loop ends with the actor not terminated, every
  iteration has run, the counter is at its last value and the local \<open>response\<close>
  is what the last call returned.
\<close>
lemma run_loop_inv:
  "p < next_ref w \<Longrightarrow>
   p < next_ref (fst (run_loop env p k turn w resp))
   \<and> config (heap (fst (run_loop env p k turn w resp)) p) = config (heap w p)
   \<and> (k = 0 \<longrightarrow> turns (heap (fst (run_loop env p k turn w resp)) p) = turns (heap w p))
   \<and> (0 < k \<longrightarrow> int turn + 1 \<le> turns (heap (fst (run_loop env p k turn w resp)) p)
               \<and> turns (heap (fst (run_loop env p k turn w resp)) p) \<le> int turn + int k)
   \<and> (0 < k \<and> state (heap (fst (run_loop env p k turn w resp)) p) \<noteq> TERMINATED \<longrightarrow>
         turns (heap (fst (run_loop env p k turn w resp)) p) = int turn + int k
         \<and> (\<exists>r. outcome (llm env (turn + k - 1)) = Inr r \<and> snd (run_loop env p k turn w resp) = Some r))"
proof (induction k arbitrary: turn w resp)
  case 0
  then show ?case by simp
next
  case (Suc k)
  let ?w1 = "set_turns w p (int turn + 1)"
  let ?w2 = "snd (drain_inbox ?w1 p)"
  let ?t = "llm env turn"
  let ?w3 = "run_events p ?w2 (events ?t)"
  have w1: "p < next_ref ?w1" "config (heap ?w1 p) = config (heap w p)" "turns (heap ?w1 p) = int turn + 1"
    using Suc.prems by (simp_all add: set_turns_def)
  have w2: "p < next_ref ?w2" "config (heap ?w2 p) = config (heap w p)" "turns (heap ?w2 p) = int turn + 1"
    using w1 by (simp_all add: drain_inbox_def set_turns_def)
  have k3: "keeps p ?w2 ?w3" using w2(1) by (rule keeps_events)
  then have w3: "p < next_ref ?w3" "config (heap ?w3 p) = config (heap w p)" "turns (heap ?w3 p) = int turn + 1"
    using w2 by (simp_all add: keeps_def)
  show ?case
  proof (cases "state (heap ?w1 p) = TERMINATED")
    case True
    then show ?thesis using w1 by (simp add: Let_def)
  next
    case nt: False
    show ?thesis
    proof (cases "outcome ?t")
      case (Inl e)
      let ?w4 = "terminate True ?w3 p (Some (''Error: '' @ e)) (stamp_id env) (stamp_time env)"
      have "keeps p ?w3 ?w4" using w3(1) by (rule keeps_terminate)
      then have "p < next_ref ?w4" "config (heap ?w4 p) = config (heap w p)" "turns (heap ?w4 p) = int turn + 1"
        using w3 by (simp_all add: keeps_def)
      moreover have "state (heap ?w4 p) = TERMINATED" by (rule terminate_state)
      ultimately show ?thesis using nt Inl by (simp add: Let_def)
    next
      case (Inr r)
      show ?thesis
      proof (cases "state (heap ?w3 p) = TERMINATED")
        case True
        then show ?thesis using nt Inr w3 by (simp add: Let_def)
      next
        case nt3: False
        let ?w4 = "if is_ack r then ?w3 else wait_briefly ?w3 p (wait_deliveries ?t)"
        have k4: "keeps p ?w3 ?w4" using w3(1) by (simp add: keeps_wait keeps_refl)
        then have w4: "p < next_ref ?w4" "config (heap ?w4 p) = config (heap w p)" "turns (heap ?w4 p) = int turn + 1"
          using w3 by (simp_all add: keeps_def)
        have eq: "run_loop env p (Suc k) turn w resp = run_loop env p k (Suc turn) ?w4 (Some r)"
          using nt Inr nt3 by (simp add: Let_def)
        from Suc.IH [OF w4(1), of "Suc turn" "Some r"] w4 Inr
        show ?thesis unfolding eq by (cases k) (auto simp add: Let_def)
      qed
    qed
  qed
qed


text \<open>
  C8. For an actor object already handed out, with \<open>max_turns\<close> at least 1 and a
  turn counter not above \<open>max_turns\<close> before the run (it is 0 for an actor that
  was never driven), \<open>run\<close> returns with the actor \<open>Terminated\<close>, its
  configuration unchanged and its turn counter at most \<open>max_turns\<close>. If the setup
  did not fail and the loop ended with the actor not terminated, then the counter
  equals \<open>max_turns\<close>, the last call of the model returned some \<open>r\<close>, and both
  the stored result and the returned text are \<open>Max turns reached. Last response: \<close>
  followed by the first 200 characters of \<open>r\<close> (by \<open>none\<close> when \<open>r\<close> is empty).
\<close>

theorem runner_bound:
  assumes "1 \<le> max_turns (config (heap w p))" and "p < next_ref w"
    and "turns (heap w p) \<le> max_turns (config (heap w p))"
  shows "state (heap (snd (run env w p)) p) = TERMINATED
     \<and> config (heap (snd (run env w p)) p) = config (heap w p)
     \<and> turns (heap (snd (run env w p)) p) \<le> max_turns (config (heap (snd (run env w p)) p))
     \<and> (setup_error env = None
          \<and> state (heap (fst (run_loop env p (nat (max_turns (config (heap w p)))) 0 w None)) p) \<noteq> TERMINATED \<longrightarrow>
        turns (heap (snd (run env w p)) p) = max_turns (config (heap w p))
        \<and> (\<exists>r. outcome (llm env (nat (max_turns (config (heap w p))) - 1)) = Inr r
               \<and> result (heap (snd (run env w p)) p) =
                   Some (''Max turns reached. Last response: '' @ (if r = [] then ''none'' else take 200 r))
               \<and> fst (run env w p) =
                   ''Max turns reached. Last response: '' @ (if r = [] then ''none'' else take 200 r)
               \<and> prefix ''Max turns reached.'' (fst (run env w p))))"
proof (cases "setup_error env")
  case (Some e)
  let ?w' = "terminate True w p (Some (''Runner error: '' @ e)) (stamp_id env) (stamp_time env)"
  have r: "snd (run env w p) = ?w'" using Some by (simp add: run_def Let_def)
  have "keeps p w ?w'" using assms(2) by (rule keeps_terminate)
  then show ?thesis unfolding r using Some assms(3) terminate_state [of w p]
    by (simp add: keeps_def)
next
  case None
  let ?n = "nat (max_turns (config (heap w p)))"
  let ?lp = "run_loop env p ?n 0 w None"
  have n: "0 < ?n" "int ?n = max_turns (config (heap w p))" using assms(1) by simp_all
  note inv = run_loop_inv [OF assms(2), of env ?n 0 None]
  show ?thesis
  proof (cases "state (heap (fst ?lp) p) = TERMINATED")
    case True
    then have r: "snd (run env w p) = fst ?lp" using None by (simp add: run_def Let_def)
    show ?thesis unfolding r using True inv n by simp
  next
    case False
    with inv n obtain r where t: "turns (heap (fst ?lp) p) = max_turns (config (heap w p))"
      and o: "outcome (llm env (?n - 1)) = Inr r" and s: "snd ?lp = Some r"
      by auto
    let ?w' = "terminate True (fst ?lp) p (Some (max_turns_result r)) (stamp_id env) (stamp_time env)"
    have ne: "max_turns_result r \<noteq> []" by (simp add: max_turns_result_def)
    have res: "result (heap ?w' p) = Some (max_turns_result r)"
      using ne by (simp add: terminate_result_eq terminate_result_def)
    have rw: "snd (run env w p) = ?w'" using None False s by (simp add: run_def Let_def)
    have rf: "fst (run env w p) = max_turns_result r"
      using None False s res ne by (simp add: run_def Let_def)
    have "p < next_ref (fst ?lp)" using inv by simp
    then have "keeps p (fst ?lp) ?w'" by (rule keeps_terminate)
    then show ?thesis unfolding rw rf using inv t o res terminate_state [of "fst ?lp" p]
      by (auto simp add: keeps_def max_turns_result_def)
  qed
qed

lemma slow_world_facts:
  "max_turns (config (heap slow_world (Suc 0))) = 3" "Suc 0 < next_ref slow_world"
  "turns (heap slow_world (Suc 0)) = 0" "state (heap slow_world (Suc 0)) = RUNNING"
  by (simp_all add: slow_world_def slow_config_def world_defs actor_defs)

lemma slow_loop:
  "state (heap (fst (run_loop still_working 1 (nat 3) 0 slow_world None)) 1) \<noteq> TERMINATED"
  by (simp add: numeral_3_eq_3 Let_def set_turns_def drain_inbox_def run_events_def wait_briefly_def
      pop_inbox_def is_ack_def still_working_def slow_world_facts string_defs)

theorem runner_bound_witness:
  "1 \<le> max_turns (config (heap slow_world 1)) \<and> 1 < next_ref slow_world
   \<and> turns (heap slow_world 1) \<le> max_turns (config (heap slow_world 1))
   \<and> state (heap (snd (run still_working slow_world 1)) 1) = TERMINATED
   \<and> turns (heap (snd (run still_working slow_world 1)) 1) = 3
   \<and> fst (run still_working slow_world 1) = ''Max turns reached. Last response: Still working...''"
proof -
  have h1: "1 \<le> max_turns (config (heap slow_world 1))" and h2: "1 < next_ref slow_world"
    and h3: "turns (heap slow_world 1) \<le> max_turns (config (heap slow_world 1))"
    by (simp_all add: slow_world_facts)
  from runner_bound [OF h1 h2 h3, of still_working] slow_loop
  show ?thesis using h1 h2 h3
    by (simp add: slow_world_facts still_working_def max_turns_result_def)
qed

section \<open>The heartbeat round\<close>

lemma rstrip_idem: "rstrip (rstrip s) = rstrip s"
  by (simp add: rstrip_def)

lemma strip_rstrip: "strip (rstrip s) = strip s"
  by (simp add: strip_def rstrip_idem)

lemma strip_space_Cons: "is_space c \<Longrightarrow> strip (c # s) = strip s"
  by (simp add: strip_def rstrip_Cons lstrip_def)

lemma notify_text_strip: "strip (notify_text x) = ''[USER_NOTIFY]'' @ rstrip (CHR '' '' # x)"
proof -
  have e: "notify_text x = ''[USER_NOTIFY]'' @ (CHR '' '' # x)" by (simp add: notify_text_def)
  have "strip (''[USER_NOTIFY]'' @ (CHR '' '' # x)) = ''[USER_NOTIFY]'' @ rstrip (CHR '' '' # x)"
    by (rule strip_append_keep) (simp_all add: is_space_def)
  then show ?thesis unfolding e .
qed

lemma notify_text_payload:
  "prefix ''[USER_NOTIFY]'' (strip (notify_text x))"
  "strip (drop (length ''[USER_NOTIFY]'') (strip (notify_text x))) = strip x"
proof -
  show "prefix ''[USER_NOTIFY]'' (strip (notify_text x))"
    unfolding notify_text_strip by simp
  have "drop (length ''[USER_NOTIFY]'') (strip (notify_text x)) = rstrip (CHR '' '' # x)"
    unfolding notify_text_strip by simp
  then show "strip (drop (length ''[USER_NOTIFY]'') (strip (notify_text x))) = strip x"
    by (simp only: strip_rstrip) (simp add: strip_space_Cons is_space_def)
qed

lemma extract_single_notify:
  assumes "recipient m = cortex_id" and "sender m \<noteq> cortex_id" and "content m = notify_text x"
  shows "extract_user_notification [m] cortex_id = Some (strip x)"
  using assms notify_text_payload [of x]
  by (simp add: extract_user_notification_def notification_candidates_def Let_def del: length_Cons list.size)

lemma extract_notify_record:
  "nid \<noteq> cortex_id \<Longrightarrow>
   extract_user_notification
     [\<lparr>msg_id = i, sender = nid, recipient = cortex_id, content = notify_text x,
       reply_to = q, created_at = t\<rparr>] cortex_id = Some (strip x)"
  by (rule extract_single_notify) simp_all

lemma compact_status_fields:
  "last_alert (snd (compact_tag_log now f st)) = last_alert st"
  "last_error (snd (compact_tag_log now f st)) = last_error st"
  "rounds_total (snd (compact_tag_log now f st)) = rounds_total st"
  by (simp_all add: compact_tag_log_def Let_def split: option.splits)


text \<open>Single steps, stated on the store.\<close>

lemma spawn_world:
  "fst (spawn w cfg parent pr nid) = next_ref w"
  "next_ref (snd (spawn w cfg parent pr nid)) = Suc (next_ref w)"
  "actors (snd (spawn w cfg parent pr nid)) = (actors w)(nid \<mapsto> next_ref w)"
  "heap (snd (spawn w cfg parent pr nid)) =
     (heap w)(next_ref w := (Actor_init cfg parent pr nid)\<lparr>state := RUNNING\<rparr>)"
  by (simp_all add: spawn_def Let_def)

lemma cleanup_world:
  "heap (cleanup_terminated w) = heap w"
  "next_ref (cleanup_terminated w) = next_ref w"
  "actors w aid = Some r \<Longrightarrow> state (heap w r) \<noteq> TERMINATED \<Longrightarrow> actors (cleanup_terminated w) aid = Some r"
  by (simp_all add: cleanup_terminated_def)

lemma set_turns_world:
  "heap (set_turns w p n) = (heap w)(p := (heap w p)\<lparr>turns := n\<rparr>)"
  "actors (set_turns w p n) = actors w"
  by (simp_all add: set_turns_def)

lemma drain_world:
  "heap (snd (drain_inbox w p)) = (heap w)(p := (heap w p)\<lparr>inbox := []\<rparr>)"
  "actors (snd (drain_inbox w p)) = actors w"
  by (simp_all add: drain_inbox_def)

lemma send_message_world:
  assumes "actors w aid = Some t" and "state (heap w t) \<noteq> TERMINATED" and "t \<noteq> p"
  shows "heap (snd (send_message w p aid text rt mid now)) =
           (heap w)(t := (heap w t)\<lparr>messages := messages (heap w t) @ [new_message w p aid text (if rt = [] then None else Some rt) mid now],
                                    inbox := inbox (heap w t) @ [new_message w p aid text (if rt = [] then None else Some rt) mid now]\<rparr>,
                    p := (heap w p)\<lparr>messages := messages (heap w p) @ [new_message w p aid text (if rt = [] then None else Some rt) mid now]\<rparr>)"
    and "actors (snd (send_message w p aid text rt mid now)) = actors w"
  using assms by (simp_all add: send_message_def send_to_def send_def get_def Let_def fun_upd_twist)

lemma terminate_world:
  "heap (terminate True w p r mid now) =
     (heap w)(p := (heap w p)\<lparr>result := Some (terminate_result (heap w p) r), state := TERMINATED\<rparr>)"
  by (simp add: terminate_def on_actor_terminated_def Let_def split: option.splits)

lemma round_loop_step_raised:
  assumes "state (heap (rs_world rs) p) \<noteq> TERMINATED"
    and "outcome (round_llm env turn) = Inr reply"
  shows "round_loop env cortex_id p (Suc k) turn rs =
     rs\<lparr>rs_world := run_events p (snd (drain_inbox (set_turns (rs_world rs) p (int turn + 1)) p))
                        (events (round_llm env turn)),
         rs_raised := Some ([CHR 0x27] @ ''ActorRegistry'' @ [CHR 0x27] @ '' object has no attribute ''
                            @ [CHR 0x27] @ ''events'' @ [CHR 0x27])\<rparr>"
proof -
  have s: "state (heap (set_turns (rs_world rs) p (int turn + 1)) p) \<noteq> TERMINATED"
    using assms(1) by (simp add: set_turns_world)
  show ?thesis
    using s assms(2) by (simp add: Let_def registry_events_query_def)
qed

lemma notify_turn:
  assumes c: "actors w cortex_id = Some c" "c < next_ref w" "state (heap w c) \<noteq> TERMINATED"
    and fresh: "nid \<noteq> cortex_id"
    and W0: "W0 = cleanup_terminated (snd (spawn w amygdala_config (Some cortex_id) False nid))"
    and W4: "W4 = run_events (next_ref w) (snd (drain_inbox (set_turns W0 (next_ref w) (int 0 + 1)) (next_ref w)))
                    [SendMessage cortex_id (notify_text x) rt mid now, Terminate res mid' now']"
  shows "state (heap W0 (next_ref w)) \<noteq> TERMINATED"
    and "state (heap W4 (next_ref w)) = TERMINATED"
    and "messages (heap W4 (next_ref w)) =
           [\<lparr>msg_id = mid, sender = nid, recipient = cortex_id, content = notify_text x,
             reply_to = (if rt = [] then None else Some rt), created_at = now\<rparr>]"
    and "inbox (heap W4 c) = inbox (heap w c) @
           [\<lparr>msg_id = mid, sender = nid, recipient = cortex_id, content = notify_text x,
             reply_to = (if rt = [] then None else Some rt), created_at = now\<rparr>]"
proof -
  let ?r = "next_ref w"
  let ?A0 = "(Actor_init amygdala_config (Some cortex_id) False nid)\<lparr>state := RUNNING\<rparr>"
  let ?msg = "\<lparr>msg_id = mid, sender = nid, recipient = cortex_id, content = notify_text x,
             reply_to = (if rt = [] then None else Some rt), created_at = now\<rparr>"
  define W2 where "W2 = snd (drain_inbox (set_turns W0 ?r 1) ?r)"
  define W3 where "W3 = snd (send_message W2 ?r cortex_id (notify_text x) rt mid now)"
  have ne: "c \<noteq> ?r" using c(2) by simp
  have h0: "heap W0 = (heap w)(?r := ?A0)"
    by (simp add: W0 cleanup_world spawn_world)
  have a0: "actors W0 cortex_id = Some c"
    unfolding W0
    by (rule cleanup_world(3)) (use c fresh ne in \<open>simp_all add: spawn_world\<close>)
  show "state (heap W0 ?r) \<noteq> TERMINATED" by (simp add: h0)
  have h2: "heap W2 ?r = ?A0\<lparr>turns := 1, inbox := []\<rparr>" "heap W2 c = heap w c"
    using ne by (simp_all add: W2_def drain_world set_turns_world h0)
  have a2: "actors W2 cortex_id = Some c"
    by (simp add: W2_def drain_world set_turns_world a0)
  have s2: "state (heap W2 c) \<noteq> TERMINATED" using c(3) by (simp add: h2)
  have m: "new_message W2 ?r cortex_id (notify_text x) (if rt = [] then None else Some rt) mid now = ?msg"
    by (simp add: new_message_def h2 Actor_init_def)
  note sm = send_message_world [OF a2 s2 ne, of "notify_text x" rt mid now, folded W3_def, unfolded m]
  have h3: "messages (heap W3 ?r) = [?msg]" "inbox (heap W3 c) = inbox (heap w c) @ [?msg]"
    using ne by (simp_all add: sm h2 Actor_init_def)
  have w4: "W4 = terminate True W3 ?r (Some res) mid' now'"
    by (simp add: W4 run_events_def terminate_tool_def W3_def W2_def)
  show "state (heap W4 ?r) = TERMINATED" "messages (heap W4 ?r) = [?msg]"
    "inbox (heap W4 c) = inbox (heap w c) @ [?msg]"
    using ne h3 by (simp_all add: w4 terminate_world)
qed

lemma round_loop_notify_raised:
  assumes c: "actors w cortex_id = Some c" "c < next_ref w" "state (heap w c) \<noteq> TERMINATED"
    and fresh: "fresh_actor_id env \<noteq> cortex_id"
    and ev: "events (round_llm env 0) =
               [SendMessage cortex_id (notify_text x) rt mid now, Terminate res mid' now']"
    and out: "outcome (round_llm env 0) = Inr reply"
    and rs: "rs = round_loop env cortex_id (next_ref w) (Suc k) 0
            \<lparr>rs_world = cleanup_terminated (snd (spawn w amygdala_config (Some cortex_id) False (fresh_actor_id env))),
             rs_last_error = [], rs_user_message = None, rs_raised = None\<rparr>"
  shows "rs_user_message rs = None
     \<and> rs_raised rs = Some ([CHR 0x27] @ ''ActorRegistry'' @ [CHR 0x27] @ '' object has no attribute ''
                            @ [CHR 0x27] @ ''events'' @ [CHR 0x27])
     \<and> state (heap (rs_world rs) (next_ref w)) = TERMINATED
     \<and> messages (heap (rs_world rs) (next_ref w)) =
           [\<lparr>msg_id = mid, sender = fresh_actor_id env, recipient = cortex_id, content = notify_text x,
             reply_to = (if rt = [] then None else Some rt), created_at = now\<rparr>]
     \<and> inbox (heap (rs_world rs) c) = inbox (heap w c) @
           [\<lparr>msg_id = mid, sender = fresh_actor_id env, recipient = cortex_id, content = notify_text x,
             reply_to = (if rt = [] then None else Some rt), created_at = now\<rparr>]"
proof -
  let ?r = "next_ref w"
  define W0 where "W0 = cleanup_terminated (snd (spawn w amygdala_config (Some cortex_id) False (fresh_actor_id env)))"
  define W4 where "W4 = run_events ?r (snd (drain_inbox (set_turns W0 ?r (int 0 + 1)) ?r))
                    [SendMessage cortex_id (notify_text x) rt mid now, Terminate res mid' now']"
  note t = notify_turn [OF c fresh W0_def W4_def]
  let ?rs0 = "\<lparr>rs_world = W0, rs_last_error = [], rs_user_message = None, rs_raised = None\<rparr>"
  have re: "run_events ?r (snd (drain_inbox (set_turns (rs_world ?rs0) ?r (int 0 + 1)) ?r))
               (events (round_llm env 0)) = W4"
    by (simp add: W4_def ev)
  have s0: "state (heap (rs_world ?rs0) ?r) \<noteq> TERMINATED" using t(1) by simp
  have "rs = ?rs0\<lparr>rs_world := W4,
                    rs_raised := Some ([CHR 0x27] @ ''ActorRegistry'' @ [CHR 0x27] @ '' object has no attribute ''
                                       @ [CHR 0x27] @ ''events'' @ [CHR 0x27])\<rparr>"
    unfolding rs W0_def [symmetric]
    using round_loop_step_raised [OF s0 out, of cortex_id k]
    unfolding re by simp
  then show ?thesis using t by simp
qed

lemma run_round_fields:
  assumes ok: "llm_setup_error env = None"
    and rs: "rs = finish_round env (next_ref w)
               (round_loop env cortex_id (next_ref w) 6 0
                  \<lparr>rs_world = cleanup_terminated (snd (spawn w amygdala_config (Some cortex_id) False (fresh_actor_id env))),
                   rs_last_error = [], rs_user_message = None, rs_raised = None\<rparr>)"
  shows "fst (run_round env cortex_id a w) = None"
    and "snd (snd (run_round env cortex_id a w)) = rs_world rs"
    and "rounds_total (status (fst (snd (run_round env cortex_id a w)))) = rounds_total (status a) + 1"
    and "last_error (status (fst (snd (run_round env cortex_id a w)))) = rs_last_error rs"
    and "last_alert (status (fst (snd (run_round env cortex_id a w)))) =
           (case rs_user_message rs of
              None \<Rightarrow> last_alert (status a)
            | Some u \<Rightarrow> if u \<noteq> [] then take 240 u else last_alert (status a))"
proof -
  have f: "fst (spawn w amygdala_config (Some cortex_id) False (fresh_actor_id env)) = next_ref w"
    by (simp add: spawn_def Let_def)
  have n: "nat (max_turns amygdala_config) = 6" by (simp add: amygdala_config_def)
  have e: "last_error (snd (compact_tag_log (compact_clock_start env) (tag_log a)
             ((status a)\<lparr>status_state := ''running'', last_started_at := started_at env, last_error := []\<rparr>))) = []"
    by (simp add: compact_status_fields)
  have r: "run_round env cortex_id a w =
     (let c1 = compact_tag_log (compact_clock_start env) (tag_log a)
                 ((status a)\<lparr>status_state := ''running'', last_started_at := started_at env, last_error := []\<rparr>);
          w3 = rs_world rs;
          res = (case result (heap w3 (next_ref w)) of
                   None \<Rightarrow> ''No result'' | Some x \<Rightarrow> if x = [] then ''No result'' else x);
          st3 = (snd c1)\<lparr>last_error := rs_last_error rs,
                         rounds_total := rounds_total (snd c1) + 1,
                         last_completed_at := completed_at env,
                         last_turns := turns (heap w3 (next_ref w)),
                         last_result := take 240 res\<rparr>;
          st4 = (case rs_user_message rs of
                   None \<Rightarrow> st3
                 | Some u \<Rightarrow> if u \<noteq> [] then st3\<lparr>last_alert := take 240 u\<rparr> else st3);
          st5 = st4\<lparr>status_state := ''idle''\<rparr>;
          patterns = update_active_patterns (active_patterns a)
                       (heuristic_seed_tags (recent_signals (signals_provider env)));
          hist = last_n 40 (round_history a @
                   [\<lparr>rr_started_at = started_at env, rr_completed_at = completed_at env,
                     rr_turns = turns (heap w3 (next_ref w)),
                     rr_alert = (case rs_user_message rs of None \<Rightarrow> False | Some u \<Rightarrow> u \<noteq> []),
                     rr_error = last_error st5, rr_result = take 240 res\<rparr>]);
          log2 = (case tag_log_written env of None \<Rightarrow> fst c1 | Some f \<Rightarrow> f);
          c2 = compact_tag_log (compact_clock_end env) log2 st5
      in (None,
          a\<lparr>status := snd c2, tag_log := fst c2, round_history := hist,
            active_patterns := patterns, current_actor := None\<rparr>,
          w3))"
    unfolding run_round_def rs by (simp only: Let_def f n e ok option.case)
  show "fst (run_round env cortex_id a w) = None" unfolding r by (simp add: Let_def)
  show "snd (snd (run_round env cortex_id a w)) = rs_world rs" unfolding r by (simp add: Let_def)
  show "rounds_total (status (fst (snd (run_round env cortex_id a w)))) = rounds_total (status a) + 1"
    unfolding r by (simp add: Let_def compact_status_fields split: option.splits)
  show "last_error (status (fst (snd (run_round env cortex_id a w)))) = rs_last_error rs"
    unfolding r by (simp add: Let_def compact_status_fields split: option.splits)
  show "last_alert (status (fst (snd (run_round env cortex_id a w)))) =
           (case rs_user_message rs of
              None \<Rightarrow> last_alert (status a)
            | Some u \<Rightarrow> if u \<noteq> [] then take 240 u else last_alert (status a))"
    unfolding r by (simp add: Let_def compact_status_fields split: option.splits)
qed

lemma run_round_notify_raised:
  assumes c: "actors w cortex_id = Some c" "c < next_ref w" "state (heap w c) \<noteq> TERMINATED"
    and fresh: "fresh_actor_id env \<noteq> cortex_id"
    and ok: "llm_setup_error env = None"
    and ev: "events (round_llm env 0) =
               [SendMessage cortex_id (notify_text x) rt mid now, Terminate res mid' now']"
    and out: "outcome (round_llm env 0) = Inr reply"
  shows "fst (run_round env cortex_id a w) = None
     \<and> last_alert (status (fst (snd (run_round env cortex_id a w)))) = last_alert (status a)
     \<and> last_error (status (fst (snd (run_round env cortex_id a w)))) =
           [CHR 0x27] @ ''ActorRegistry'' @ [CHR 0x27] @ '' object has no attribute ''
           @ [CHR 0x27] @ ''events'' @ [CHR 0x27]
     \<and> rounds_total (status (fst (snd (run_round env cortex_id a w)))) = rounds_total (status a) + 1
     \<and> messages (heap (snd (snd (run_round env cortex_id a w))) (next_ref w)) =
           [\<lparr>msg_id = mid, sender = fresh_actor_id env, recipient = cortex_id, content = notify_text x,
             reply_to = (if rt = [] then None else Some rt), created_at = now\<rparr>]
     \<and> inbox (heap (snd (snd (run_round env cortex_id a w))) c)
         = inbox (heap w c) @
           [\<lparr>msg_id = mid, sender = fresh_actor_id env, recipient = cortex_id, content = notify_text x,
             reply_to = (if rt = [] then None else Some rt), created_at = now\<rparr>]"
proof -
  let ?e = "[CHR 0x27] @ ''ActorRegistry'' @ [CHR 0x27] @ '' object has no attribute ''
           @ [CHR 0x27] @ ''events'' @ [CHR 0x27]"
  define RS where "RS = round_loop env cortex_id (next_ref w) (Suc 5) 0
      \<lparr>rs_world = cleanup_terminated (snd (spawn w amygdala_config (Some cortex_id) False (fresh_actor_id env))),
       rs_last_error = [], rs_user_message = None, rs_raised = None\<rparr>"
  note loop = round_loop_notify_raised [OF c fresh ev out RS_def]
  have fin: "finish_round env (next_ref w) RS = RS\<lparr>rs_last_error := ?e\<rparr>"
    using loop by (simp add: finish_round_def)
  have six: "(6::nat) = Suc 5" by simp
  have rs: "RS\<lparr>rs_last_error := ?e\<rparr> = finish_round env (next_ref w)
               (round_loop env cortex_id (next_ref w) 6 0
                  \<lparr>rs_world = cleanup_terminated (snd (spawn w amygdala_config (Some cortex_id) False (fresh_actor_id env))),
                   rs_last_error = [], rs_user_message = None, rs_raised = None\<rparr>)"
    unfolding six RS_def [symmetric] fin ..
  note fields = run_round_fields [OF ok rs, of a]
  show ?thesis using fields loop by simp
qed

lemma notify_env_facts:
  "fresh_actor_id (notify_env p) \<noteq> ''aaaaaaaa''"
  "llm_setup_error (notify_env p) = None"
  "events (round_llm (notify_env p) 0) =
     [SendMessage ''aaaaaaaa'' (notify_text p) [] ''1a1a1a1a'' 11, Terminate ''escalated'' ''1b1b1b1b'' 12]"
  "outcome (round_llm (notify_env p) 0) = Inr ''done''"
  by (simp_all add: notify_env_def)

lemma butler_cortex:
  "actors butler_world ''aaaaaaaa'' = Some 0" "0 < next_ref butler_world"
  "state (heap butler_world 0) \<noteq> TERMINATED" "inbox (heap butler_world 0) = []"
  by (simp_all add: world_defs actor_defs)

text \<open>
  C2. The claim: when the round's actor sends \<open>[USER_NOTIFY]\<close> followed by a payload
  to the cortex and then terminates, \<open>run_round\<close> completes with \<open>last_alert\<close>
  containing the payload, \<open>last_error\<close> empty and \<open>rounds_total\<close> one higher.
  The source reaches for this: line 214 extracts the payload from the actor's history,
  and line 236 stores it in \<open>last_alert\<close>. But line 205, which runs first, reads
  \<open>self.registry.events\<close>, an attribute the registry does not have. In the round of
  the escalation scenario (cortex \<open>butler\<close>; the model sends
  \<open>[USER_NOTIFY] deploy failure recurring\<close> to the cortex, calls
  \<open>terminate("escalated")\<close> and returns) the exception is caught by the outer handler:
  the round completes and \<open>rounds_total\<close> goes from 0 to 1, the cortex's inbox holds
  the notification, and the extraction applied to the actor's history would give the
  payload; yet \<open>last_alert\<close> stays empty and \<open>last_error\<close> is the text of the
  \<open>AttributeError\<close>.
\<close>

theorem run_round_user_notify_attribute_error:
  "events (round_llm (notify_env ''deploy failure recurring'') 0) =
     [SendMessage ''aaaaaaaa'' (''[USER_NOTIFY] '' @ ''deploy failure recurring'') [] ''1a1a1a1a'' 11,
      Terminate ''escalated'' ''1b1b1b1b'' 12]
   \<and> outcome (round_llm (notify_env ''deploy failure recurring'') 0) = Inr ''done''
   \<and> rounds_total (status amygdala0) = 0
   \<and> fst (run_round (notify_env ''deploy failure recurring'') ''aaaaaaaa'' amygdala0 butler_world) = None
   \<and> rounds_total (status (fst (snd (run_round (notify_env ''deploy failure recurring'') ''aaaaaaaa'' amygdala0 butler_world)))) = 1
   \<and> map content (inbox (heap (snd (snd (run_round (notify_env ''deploy failure recurring'') ''aaaaaaaa'' amygdala0 butler_world))) 0))
       = [''[USER_NOTIFY] deploy failure recurring'']
   \<and> extract_user_notification
         (messages (heap (snd (snd (run_round (notify_env ''deploy failure recurring'') ''aaaaaaaa'' amygdala0 butler_world))) 1))
         ''aaaaaaaa'' = Some ''deploy failure recurring''
   \<and> last_alert (status (fst (snd (run_round (notify_env ''deploy failure recurring'') ''aaaaaaaa'' amygdala0 butler_world)))) = []
   \<and> \<not> contains ''deploy failure recurring''
         (last_alert (status (fst (snd (run_round (notify_env ''deploy failure recurring'') ''aaaaaaaa'' amygdala0 butler_world)))))
   \<and> last_error (status (fst (snd (run_round (notify_env ''deploy failure recurring'') ''aaaaaaaa'' amygdala0 butler_world))))
       = [CHR 0x27] @ ''ActorRegistry'' @ [CHR 0x27] @ '' object has no attribute ''
         @ [CHR 0x27] @ ''events'' @ [CHR 0x27]"
proof -
  have s: "strip ''deploy failure recurring'' = ''deploy failure recurring''"
    by (simp add: string_defs)
  have a0: "rounds_total (status amygdala0) = 0" "last_alert (status amygdala0) = []"
    by (simp_all add: amygdala0_def status0_def)
  have n: "next_ref butler_world = Suc 0" by (simp add: world_defs spawn_world)
  note f = notify_env_facts [of "''deploy failure recurring''"]
  note r = run_round_notify_raised [OF butler_cortex(1,2,3) f(1,2,3,4), where a = amygdala0, unfolded n]
  have x: "extract_user_notification
         (messages (heap (snd (snd (run_round (notify_env ''deploy failure recurring'') ''aaaaaaaa'' amygdala0 butler_world))) (Suc 0)))
         ''aaaaaaaa'' = Some ''deploy failure recurring''"
    using r f(1) by (simp add: extract_notify_record s)
  have i: "map content (inbox (heap (snd (snd (run_round (notify_env ''deploy failure recurring'') ''aaaaaaaa'' amygdala0 butler_world))) 0))
       = [''[USER_NOTIFY] deploy failure recurring'']"
    using r by (simp add: butler_cortex notify_text_def)
  have c: "\<not> contains ''deploy failure recurring'' []" by simp
  show ?thesis
    using r a0 x i c f(3,4) by (simp add: notify_text_def)
qed

end
